theory Spec2Isabelle
  imports Complex_Main
begin

section \<open>Hand data utilities (data/hands.js)\<close>

text \<open>
  JavaScript strings are modelled as \<open>string\<close>; a one-character string such as a rank
  or a suffix letter is a \<open>char\<close>. The letters the functions below inspect are ASCII,
  and \<open>toUpperCase\<close>/\<open>toLowerCase\<close> are modelled on ASCII letters (every other
  character is returned as it is).
\<close>

datatype error = TypeError

definition toUpperCase :: "char \<Rightarrow> char" where
  "toUpperCase c =
     (case map_of (zip ''abcdefghijklmnopqrstuvwxyz'' ''ABCDEFGHIJKLMNOPQRSTUVWXYZ'') c of
        Some u \<Rightarrow> u | None \<Rightarrow> c)"

definition toLowerCase :: "char \<Rightarrow> char" where
  "toLowerCase c =
     (case map_of (zip ''ABCDEFGHIJKLMNOPQRSTUVWXYZ'' ''abcdefghijklmnopqrstuvwxyz'') c of
        Some l \<Rightarrow> l | None \<Rightarrow> c)"

text \<open>\<open>RANKS = ['A', 'K', 'Q', 'J', 'T', '9', '8', '7', '6', '5', '4', '3', '2']\<close>\<close>

definition RANKS :: "char list" where
  "RANKS = ''AKQJT98765432''"

text \<open>\<open>Array.prototype.indexOf\<close>: the first index of the element, \<open>-1\<close> when absent.\<close>

fun indexOf :: "'a list \<Rightarrow> 'a \<Rightarrow> int" where
  "indexOf [] x = -1"
| "indexOf (y # ys) x =
     (if x = y then 0 else (let i = indexOf ys x in if i < 0 then -1 else i + 1))"

text \<open>\<open>RANKS[i]\<close> used in a string concatenation: out of range it is \<open>undefined\<close>,
  which concatenates as the text "undefined".\<close>

definition RANKS_at :: "int \<Rightarrow> string" where
  "RANKS_at i = (if 0 \<le> i \<and> i < int (length RANKS) then [RANKS ! nat i] else ''undefined'')"

text \<open>\<open>generateAllHands\<close>: the two nested loops \<open>i = 0..12\<close>, \<open>j = i..12\<close>.\<close>

definition generateAllHands :: "string list" where
  "generateAllHands =
     concat (map (\<lambda>i. concat (map (\<lambda>j.
        if i = j then [[RANKS ! i, RANKS ! j]]
        else [[RANKS ! i, RANKS ! j] @ ''s'', [RANKS ! i, RANKS ! j] @ ''o''])
       [i ..< length RANKS])) [0 ..< length RANKS])"

definition ALL_HANDS :: "string list" where
  "ALL_HANDS = generateAllHands"

record hand =
  rank1 :: char
  rank2 :: char
  suited :: bool
  offsuit :: bool
  pair :: bool
  hand_notation :: string

text \<open>\<open>notation[2]?.toLowerCase()\<close>: \<open>None\<close> is \<open>undefined\<close>.\<close>

fun suffix_of :: "string \<Rightarrow> char option" where
  "suffix_of (c # cs) = Some (toLowerCase c)"
| "suffix_of [] = None"

text \<open>\<open>(suffix || 'o')\<close>: the suffix letter, \<open>o\<close> when there is none.\<close>

definition suffix_or_o :: "char option \<Rightarrow> char" where
  "suffix_or_o suffix = (case suffix of Some s \<Rightarrow> s | None \<Rightarrow> CHR ''o'')"

text \<open>\<open>parseHand\<close>: \<open>None\<close> is the \<open>null\<close> returned for a falsy or too short notation.\<close>

fun parseHand :: "string \<Rightarrow> hand option" where
  "parseHand (c1 # c2 # cs) =
     (let r1 = toUpperCase c1; r2 = toUpperCase c2; suffix = suffix_of cs in
      Some \<lparr> rank1 = r1, rank2 = r2,
             suited = (suffix = Some (CHR ''s'')),
             offsuit = (suffix = Some (CHR ''o'')),
             pair = (r1 = r2),
             hand_notation = (if r1 = r2 then [r1, r2]
                         else [r1, r2] @ [suffix_or_o suffix]) \<rparr>)"
| "parseHand _ = None"

text \<open>
  \<open>normalizeHand\<close>: \<open>Inr None\<close> is the \<open>null\<close> returned for a falsy notation; a
  one-character notation makes \<open>notation[1].toUpperCase()\<close> throw a TypeError.
\<close>

fun normalizeHand :: "string \<Rightarrow> error + string option" where
  "normalizeHand [] = Inr None"
| "normalizeHand [c1] = Inl TypeError"
| "normalizeHand (c1 # c2 # cs) =
     (let r1 = indexOf RANKS (toUpperCase c1); r2 = indexOf RANKS (toUpperCase c2);
          (rank1, rank2) = (if r1 > r2 then (toUpperCase c2, toUpperCase c1)
                            else (toUpperCase c1, toUpperCase c2)) in
      if rank1 = rank2 then Inr (Some [rank1, rank2])
      else Inr (Some ([rank1, rank2] @ [suffix_or_o (suffix_of cs)])))"

text \<open>
  \<open>PREFLOP_EQUITY\<close>: the object literal, as the list of its 169 key/value pairs in
  source order (the keys are pairwise distinct). The values are percentages.
\<close>

definition PREFLOP_EQUITY :: "(string \<times> rat) list" where
  "PREFLOP_EQUITY = [
     (''AA'', 85.0), (''KK'', 82.4), (''QQ'', 80.0), (''JJ'', 77.5), (''TT'', 75.1),
     (''99'', 72.1), (''88'', 69.1), (''77'', 66.2), (''66'', 63.3), (''55'', 60.3),
     (''44'', 57.0), (''33'', 53.7), (''22'', 50.3), (''AKs'', 67.0), (''AQs'', 66.1),
     (''AJs'', 65.4), (''ATs'', 64.7), (''A9s'', 63.0), (''A8s'', 62.1), (''A7s'', 61.1),
     (''A6s'', 60.0), (''A5s'', 60.2), (''A4s'', 59.3), (''A3s'', 58.5), (''A2s'', 57.7),
     (''AKo'', 65.3), (''AQo'', 64.4), (''AJo'', 63.6), (''ATo'', 62.8), (''A9o'', 60.7),
     (''A8o'', 59.7), (''A7o'', 58.6), (''A6o'', 57.4), (''A5o'', 57.6), (''A4o'', 56.6),
     (''A3o'', 55.8), (''A2o'', 55.0), (''KQs'', 63.4), (''KJs'', 62.6), (''KTs'', 61.9),
     (''K9s'', 60.0), (''K8s'', 58.5), (''K7s'', 57.8), (''K6s'', 56.8), (''K5s'', 55.8),
     (''K4s'', 54.9), (''K3s'', 54.1), (''K2s'', 53.3), (''KQo'', 61.4), (''KJo'', 60.6),
     (''KTo'', 59.8), (''K9o'', 57.6), (''K8o'', 55.8), (''K7o'', 55.0), (''K6o'', 53.9),
     (''K5o'', 52.9), (''K4o'', 51.9), (''K3o'', 51.1), (''K2o'', 50.2), (''QJs'', 60.3),
     (''QTs'', 59.5), (''Q9s'', 57.9), (''Q8s'', 56.2), (''Q7s'', 54.6), (''Q6s'', 54.0),
     (''Q5s'', 53.1), (''Q4s'', 52.2), (''Q3s'', 51.4), (''Q2s'', 50.6), (''QJo'', 58.2),
     (''QTo'', 57.3), (''Q9o'', 55.3), (''Q8o'', 53.3), (''Q7o'', 51.5), (''Q6o'', 50.8),
     (''Q5o'', 49.8), (''Q4o'', 48.8), (''Q3o'', 47.9), (''Q2o'', 47.1), (''JTs'', 57.5),
     (''J9s'', 55.8), (''J8s'', 54.2), (''J7s'', 52.4), (''J6s'', 51.0), (''J5s'', 50.4),
     (''J4s'', 49.5), (''J3s'', 48.7), (''J2s'', 47.9), (''JTo'', 55.4), (''J9o'', 53.4),
     (''J8o'', 51.5), (''J7o'', 49.5), (''J6o'', 47.9), (''J5o'', 47.3), (''J4o'', 46.3),
     (''J3o'', 45.5), (''J2o'', 44.6), (''T9s'', 54.3), (''T8s'', 52.6), (''T7s'', 50.9),
     (''T6s'', 49.3), (''T5s'', 47.8), (''T4s'', 47.2), (''T3s'', 46.4), (''T2s'', 45.6),
     (''T9o'', 51.7), (''T8o'', 49.8), (''T7o'', 47.8), (''T6o'', 46.0), (''T5o'', 44.4),
     (''T4o'', 43.7), (''T3o'', 42.8), (''T2o'', 42.0), (''98s'', 51.1), (''97s'', 49.5),
     (''96s'', 47.8), (''95s'', 46.1), (''94s'', 44.7), (''93s'', 44.1), (''92s'', 43.4),
     (''98o'', 48.3), (''97o'', 46.5), (''96o'', 44.5), (''95o'', 42.7), (''94o'', 41.2),
     (''93o'', 40.5), (''92o'', 39.7), (''87s'', 48.2), (''86s'', 46.5), (''85s'', 44.8),
     (''84s'', 43.2), (''83s'', 41.8), (''82s'', 41.2), (''87o'', 45.2), (''86o'', 43.2),
     (''85o'', 41.4), (''84o'', 39.6), (''83o'', 38.1), (''82o'', 37.4), (''76s'', 45.7),
     (''75s'', 44.0), (''74s'', 42.3), (''73s'', 40.7), (''72s'', 39.4), (''76o'', 42.5),
     (''75o'', 40.6), (''74o'', 38.7), (''73o'', 36.9), (''72o'', 35.5), (''65s'', 43.2),
     (''64s'', 41.4), (''63s'', 39.8), (''62s'', 38.4), (''65o'', 39.8), (''64o'', 37.8),
     (''63o'', 36.0), (''62o'', 34.5), (''54s'', 41.1), (''53s'', 39.4), (''52s'', 37.9),
     (''54o'', 37.6), (''53o'', 35.7), (''52o'', 34.2), (''43s'', 38.0), (''42s'', 36.6),
     (''43o'', 34.3), (''42o'', 32.7), (''32s'', 35.4), (''32o'', 31.6)]"

text \<open>The property key a value is converted to: \<open>null\<close> reads the property "null".\<close>

definition property_key :: "string option \<Rightarrow> string" where
  "property_key k = (case k of None \<Rightarrow> ''null'' | Some s \<Rightarrow> s)"

text \<open>
  \<open>getEquity\<close>: \<open>PREFLOP_EQUITY[normalized] || 30\<close>. A missing property is
  \<open>undefined\<close> and a stored \<open>0\<close> would be falsy as well; both give 30. The
  TypeError of \<open>normalizeHand\<close> propagates.
\<close>

definition getEquity :: "string \<Rightarrow> error + rat" where
  "getEquity n =
     (case normalizeHand n of
        Inl e \<Rightarrow> Inl e
      | Inr normalized \<Rightarrow>
          Inr (case map_of PREFLOP_EQUITY (property_key normalized) of
                 None \<Rightarrow> 30
               | Some v \<Rightarrow> if v = 0 then 30 else v))"

text \<open>\<open>getHandStrength\<close>: \<open>getEquity(notation) / 100\<close>.\<close>

definition getHandStrength :: "string \<Rightarrow> error + rat" where
  "getHandStrength n = (case getEquity n of Inl e \<Rightarrow> Inl e | Inr v \<Rightarrow> Inr (v / 100))"

text \<open>\<open>getHandFromGrid\<close>: string concatenation of the two looked-up ranks.\<close>

definition getHandFromGrid :: "int \<Rightarrow> int \<Rightarrow> string" where
  "getHandFromGrid r c =
     (if r = c then RANKS_at r @ RANKS_at c
      else if r < c then RANKS_at r @ RANKS_at c @ ''s''
      else RANKS_at c @ RANKS_at r @ ''o'')"

record gridpos =
  row :: int
  col :: int

text \<open>\<open>getGridPosition\<close>: \<open>None\<close> is \<open>null\<close>.\<close>

definition getGridPosition :: "string \<Rightarrow> gridpos option" where
  "getGridPosition n =
     (case parseHand n of
        None \<Rightarrow> None
      | Some h \<Rightarrow>
          (let r = indexOf RANKS (rank1 h); c = indexOf RANKS (rank2 h) in
           if pair h then Some \<lparr> row = r, col = r \<rparr>
           else if suited h then Some \<lparr> row = min r c, col = max r c \<rparr>
           else Some \<lparr> row = max r c, col = min r c \<rparr>))"

section \<open>Board texture (data/scenarioRanges.js)\<close>

text \<open>A card object \<open>{ rank, suit }\<close>; both are one-character strings.\<close>

record card =
  rank :: char
  suit :: char

text \<open>
  \<open>getRankValue\<close>: \<open>values[rank] || parseInt(rank)\<close>. \<open>None\<close> is the \<open>NaN\<close>
  that \<open>parseInt\<close> gives for a character that is not a digit.
\<close>

definition parseInt :: "char \<Rightarrow> int option" where
  "parseInt c = map_of (zip ''0123456789'' [0, 1, 2, 3, 4, 5, 6, 7, 8, 9]) c"

definition getRankValue :: "char \<Rightarrow> int option" where
  "getRankValue r =
     (case map_of [(CHR ''A'', 14), (CHR ''K'', 13), (CHR ''Q'', 12), (CHR ''J'', 11),
                   (CHR ''T'', 10)] r of
        Some v \<Rightarrow> Some v
      | None \<Rightarrow> parseInt r)"

text \<open>\<open>suits.forEach(s => suitCounts[s] = (suitCounts[s] || 0) + 1)\<close>, a missing key
  counting as 0.\<close>

definition suitCounts :: "char list \<Rightarrow> char \<Rightarrow> nat" where
  "suitCounts suits = fold (\<lambda>s m. m(s := m s + 1)) suits (\<lambda>_. 0)"

text \<open>\<open>Object.values(suitCounts).some(count => count === 2)\<close>: the keys of the object
  are the suits that occur.\<close>

definition hasTwoTone :: "char list \<Rightarrow> bool" where
  "hasTwoTone suits = list_ex (\<lambda>s. suitCounts suits s = 2) (remdups suits)"

text \<open>The loop pushing \<open>rankValues[i + 1] - rankValues[i]\<close> for \<open>i\<close> from 0 to
  \<open>length - 2\<close>.\<close>

definition gaps :: "int list \<Rightarrow> int list" where
  "gaps rankValues = map (\<lambda>(a, b). b - a) (zip rankValues (tl rankValues))"

text \<open>
  \<open>isConnected = gaps.every(g => g <= 2)\<close> over the rank values sorted ascending. A
  \<open>NaN\<close> among three or more rank values makes at least one gap \<open>NaN\<close> wherever the
  sort leaves it, and \<open>NaN <= 2\<close> is false.
\<close>

definition isConnected :: "int option list \<Rightarrow> bool" where
  "isConnected values =
     (if list_all (\<lambda>v. v \<noteq> None) values
      then list_all (\<lambda>g. g \<le> 2) (gaps (sort (map the values)))
      else False)"

text \<open>\<open>analyzeBoardTexture\<close>, with the source's order of checks.\<close>

definition analyzeBoardTexture :: "card list \<Rightarrow> string" where
  "analyzeBoardTexture board =
     (if length board < 3 then ''unknown''
      else
        let suits = map suit board; ranks = map rank board in
        if suits ! 0 = suits ! 1 \<and> suits ! 1 = suits ! 2 then ''monotone''
        else if ranks ! 0 = ranks ! 1 \<or> ranks ! 1 = ranks ! 2 \<or> ranks ! 0 = ranks ! 2
        then ''paired''
        else if hasTwoTone suits \<or> isConnected (map getRankValue ranks) then ''wet''
        else ''dry'')"

section \<open>Range statistics (components/RangeGrid.js)\<close>









section \<open>Progress store (storage.js)\<close>

text \<open>
  The progress record of a scenario, and of a drill, which has two more fields. Numbers are
  rationals; \<open>null\<close> is \<open>None\<close>.
\<close>

record unit_record =
  unlocked :: bool
  completed :: bool
  bestScore :: rat
  attempts :: nat
  lastAttempt :: "string option"

record drill_record = unit_record +
  bestStreak :: rat
  bestTime :: "rat option"

text \<open>
  The persisted document, as \<open>loadProgress\<close> returns it: the drills and scenarios stages
  with their module records, and the \<open>unlocked\<close> flag of the full-hands stage. (The
  foundations stage, the global stats and the settings are not touched by the functions
  below.)
\<close>

record progress =
  drills_unlocked :: bool
  drills_completed :: bool
  drills_modules :: "string \<rightharpoonup> drill_record"
  totalAttempts :: nat
  drills_achievements :: "string list"
  scenarios_unlocked :: bool
  scenarios_completed :: bool
  scenarios_modules :: "string \<rightharpoonup> unit_record"
  scenarios_achievements :: "string list"
  full_hands_unlocked :: bool
  lastUpdated :: "string option"

text \<open>The statistics a finished session hands over; \<open>stats_bestStreak\<close> is the field
  \<open>bestStreak\<close> of the drills' statistics.\<close>

record session_stats =
  accuracy :: rat
  avgTime :: rat

record drill_stats = session_stats +
  stats_bestStreak :: rat

definition DRILL_ORDER :: "string list" where
  "DRILL_ORDER = [''hand-ranking'', ''open-fold'', ''equity-snap'', ''range-check'',
     ''position-speed'']"

definition DRILL_THRESHOLDS :: "(string \<times> rat) list" where
  "DRILL_THRESHOLDS = [(''hand-ranking'', 80), (''open-fold'', 75), (''equity-snap'', 70),
     (''range-check'', 75), (''position-speed'', 80)]"

definition SCENARIO_ORDER :: "string list" where
  "SCENARIO_ORDER = [''defend-3bet'', ''bb-defense'', ''3bet-value'', ''sb-3bet-fold'',
     ''cold-4bet'', ''board-texture'']"

definition SCENARIO_THRESHOLDS :: "(string \<times> rat) list" where
  "SCENARIO_THRESHOLDS = [(''defend-3bet'', 75), (''bb-defense'', 75), (''3bet-value'', 75),
     (''sb-3bet-fold'', 75), (''cold-4bet'', 70), (''board-texture'', 80)]"

definition TIER_1_SCENARIOS :: "string list" where
  "TIER_1_SCENARIOS = [''defend-3bet'', ''bb-defense'', ''3bet-value'', ''sb-3bet-fold'']"

text \<open>\<open>DEFAULT_PROGRESS\<close>, for the part of the document modelled here.\<close>

definition default_drill :: "bool \<Rightarrow> drill_record" where
  "default_drill u = \<lparr> unlocked = u, completed = False, bestScore = 0, attempts = 0,
     lastAttempt = None, bestStreak = 0, bestTime = None \<rparr>"

definition default_scenario :: "bool \<Rightarrow> unit_record" where
  "default_scenario u = \<lparr> unlocked = u, completed = False, bestScore = 0, attempts = 0,
     lastAttempt = None \<rparr>"

definition DEFAULT_PROGRESS :: progress where
  "DEFAULT_PROGRESS = \<lparr>
     drills_unlocked = False, drills_completed = False,
     drills_modules = map_of [
       (''hand-ranking'', default_drill True), (''open-fold'', default_drill False),
       (''equity-snap'', default_drill False), (''range-check'', default_drill False),
       (''position-speed'', default_drill False)],
     totalAttempts = 0, drills_achievements = [],
     scenarios_unlocked = False, scenarios_completed = False,
     scenarios_modules = map_of [
       (''defend-3bet'', default_scenario True), (''bb-defense'', default_scenario True),
       (''3bet-value'', default_scenario True), (''sb-3bet-fold'', default_scenario True),
       (''cold-4bet'', default_scenario False), (''board-texture'', default_scenario True)],
     scenarios_achievements = [],
     full_hands_unlocked = False, lastUpdated = None \<rparr>"

text \<open>
  What \<open>localStorage.setItem\<close> does in \<open>saveProgress\<close>. When it throws, nothing is
  stored and nothing is rolled back: the records that \<open>loadProgress\<close> handed out are
  partly copies of the stored ones and partly the objects of \<open>DEFAULT_PROGRESS\<close> itself
  (its copies are shallow), and the changes made to the latter stay. Which records those
  are is not determined by the document, so \<open>SaveFailed d\<close> carries the document \<open>d\<close>
  that the next \<open>loadProgress\<close> returns.
\<close>

datatype save_outcome = Saved | SaveFailed progress

text \<open>
  \<open>saveProgress\<close>: stamps the document and stores it, returning \<open>true\<close>; \<open>false\<close>
  when storing throws. The document of the result is the one the next \<open>loadProgress\<close>
  returns. One time stamp \<open>now\<close> stands for the clock readings of a call
  (\<open>lastAttempt\<close> and \<open>lastUpdated\<close>).
\<close>

definition saveProgress :: "save_outcome \<Rightarrow> string \<Rightarrow> progress \<Rightarrow> bool \<times> progress" where
  "saveProgress sv now p =
     (case sv of Saved \<Rightarrow> (True, p\<lparr> lastUpdated := Some now \<rparr>) | SaveFailed d \<Rightarrow> (False, d))"

text \<open>
  A property read \<open>obj[key]\<close> on a plain object: the object's own property, else the
  property of that name inherited from \<open>Object.prototype\<close> (a function, or the prototype
  itself for \<open>__proto__\<close>: truthy, and not a number), else \<open>undefined\<close>.
\<close>

definition Object_prototype_keys :: "string list" where
  "Object_prototype_keys = [''constructor'', ''__defineGetter__'', ''__defineSetter__'',
     ''hasOwnProperty'', ''__lookupGetter__'', ''__lookupSetter__'', ''isPrototypeOf'',
     ''propertyIsEnumerable'', ''toString'', ''valueOf'', ''__proto__'', ''toLocaleString'']"

datatype 'a property = Own 'a | Inherited | Undefined

definition property :: "(string \<rightharpoonup> 'a) \<Rightarrow> string \<Rightarrow> 'a property" where
  "property obj key =
     (case obj key of
        Some v \<Rightarrow> Own v
      | None \<Rightarrow> if key \<in> set Object_prototype_keys then Inherited else Undefined)"

text \<open>
  \<open>DRILL_THRESHOLDS[drillId] || 70\<close> and \<open>SCENARIO_THRESHOLDS[scenarioId] || 75\<close>.
  \<open>None\<close> is an inherited property, which is returned as it is and is not a number.
\<close>

definition getDrillThreshold :: "string \<Rightarrow> rat option" where
  "getDrillThreshold drillId =
     (case property (map_of DRILL_THRESHOLDS) drillId of
        Own t \<Rightarrow> Some (if t = 0 then 70 else t)
      | Inherited \<Rightarrow> None
      | Undefined \<Rightarrow> Some 70)"

definition getScenarioThreshold :: "string \<Rightarrow> rat option" where
  "getScenarioThreshold scenarioId =
     (case property (map_of SCENARIO_THRESHOLDS) scenarioId of
        Own t \<Rightarrow> Some (if t = 0 then 75 else t)
      | Inherited \<Rightarrow> None
      | Undefined \<Rightarrow> Some 75)"

text \<open>\<open>accuracy >= threshold\<close>: false when the threshold is not a number.\<close>

definition reaches :: "rat \<Rightarrow> rat option \<Rightarrow> bool" where
  "reaches x threshold = (case threshold of Some t \<Rightarrow> x \<ge> t | None \<Rightarrow> False)"

text \<open>\<open>ORDER.every(id => modules[id]?.completed)\<close>\<close>

definition allCompleted :: "string list \<Rightarrow> (string \<rightharpoonup> 'a unit_record_scheme) \<Rightarrow> bool" where
  "allCompleted order modules =
     list_all (\<lambda>i. case modules i of None \<Rightarrow> False | Some r \<Rightarrow> completed r) order"

text \<open>\<open>ids.every(id => modules[id]?.bestScore >= 85)\<close>\<close>

definition allMastered :: "string list \<Rightarrow> (string \<rightharpoonup> 'a unit_record_scheme) \<Rightarrow> bool" where
  "allMastered ids modules =
     list_all (\<lambda>i. case modules i of None \<Rightarrow> False | Some r \<Rightarrow> bestScore r \<ge> 85) ids"

text \<open>\<open>if (cond && !achievements.includes(a)) achievements.push(a)\<close>\<close>

definition award :: "bool \<Rightarrow> string \<Rightarrow> string list \<Rightarrow> string list" where
  "award cond a achievements =
     (if cond \<and> a \<notin> set achievements then achievements @ [a] else achievements)"

definition checkDrillAchievements :: "progress \<Rightarrow> string \<Rightarrow> drill_stats \<Rightarrow> progress" where
  "checkDrillAchievements p drillId stats =
     (let a0 = drills_achievements p;
          a1 = award (avgTime stats < 2000) ''speed-demon'' a0;
          a2 = award (accuracy stats = 100) ''perfect-run'' a1;
          a3 = award (stats_bestStreak stats \<ge> 25) ''on-fire'' a2;
          a4 = award (allCompleted DRILL_ORDER (drills_modules p)) ''drill-master'' a3
      in p\<lparr> drills_achievements := a4 \<rparr>)"

definition checkScenarioAchievements ::
  "progress \<Rightarrow> string \<Rightarrow> 'a session_stats_scheme \<Rightarrow> progress" where
  "checkScenarioAchievements p scenarioId stats =
     (let a0 = scenarios_achievements p;
          a1 = award (accuracy stats = 100) ''perfect-decisions'' a0;
          a2 = award (allCompleted SCENARIO_ORDER (scenarios_modules p)) ''scenario-solver'' a1;
          a3 = award (allCompleted [''defend-3bet'', ''bb-defense'', ''3bet-value'',
                        ''sb-3bet-fold'', ''cold-4bet''] (scenarios_modules p))
                 ''preflop-master'' a2;
          a4 = award (allMastered [''3bet-value'', ''sb-3bet-fold''] (scenarios_modules p))
                 ''3bet-specialist'' a3;
          a5 = award (allMastered [''defend-3bet'', ''bb-defense''] (scenarios_modules p))
                 ''defender'' a4
      in p\<lparr> scenarios_achievements := a5 \<rparr>)"

text \<open>\<open>if (modules[id]) modules[id].unlocked = true\<close>\<close>

definition unlock :: "string \<Rightarrow> (string \<rightharpoonup> 'a unit_record_scheme) \<Rightarrow> (string \<rightharpoonup> 'a unit_record_scheme)" where
  "unlock i modules =
     (case modules i of None \<Rightarrow> modules | Some r \<Rightarrow> modules(i \<mapsto> r\<lparr> unlocked := True \<rparr>))"

text \<open>The drill after \<open>drillId\<close> in \<open>DRILL_ORDER\<close>, when \<open>drillId\<close> is in the list and
  not the last one.\<close>

definition nextDrill :: "string \<Rightarrow> string option" where
  "nextDrill drillId =
     (let currentIndex = indexOf DRILL_ORDER drillId in
      if currentIndex \<ge> 0 \<and> currentIndex < int (length DRILL_ORDER) - 1
      then Some (DRILL_ORDER ! nat (currentIndex + 1)) else None)"

text \<open>
  \<open>updateDrillProgress\<close>. \<open>now\<close> is the time stamp \<open>new Date().toISOString()\<close>. The
  result is what \<open>saveProgress\<close> returns, or \<open>false\<close> with the document unchanged when
  \<open>modules[drillId]\<close> is \<open>undefined\<close>. \<open>stats.avgTime && ...\<close> is false for an
  average time of 0.

  An id that names an inherited property passes the guard \<open>!drillData?.modules[drillId]\<close>.
  The attempt is then counted on the inherited object, which is not part of the document;
  its \<open>bestScore\<close>, \<open>bestStreak\<close> and \<open>bestTime\<close> are \<open>undefined\<close>, so that no
  comparison holds, and the threshold is inherited too, so that the attempt does not pass.
  What is left in the document is the total count and the stamp of \<open>saveProgress\<close>.
\<close>

definition updateDrillProgress ::
  "string \<Rightarrow> drill_stats \<Rightarrow> string \<Rightarrow> save_outcome \<Rightarrow> progress \<Rightarrow> bool \<times> progress" where
  "updateDrillProgress drillId stats now sv p =
     (case property (drills_modules p) drillId of
        Undefined \<Rightarrow> (False, p)
      | Inherited \<Rightarrow> saveProgress sv now (p\<lparr> totalAttempts := totalAttempts p + 1 \<rparr>)
      | Own drill \<Rightarrow>
          let passed = reaches (accuracy stats) (getDrillThreshold drillId);
              d1 = drill\<lparr> attempts := attempts drill + 1, lastAttempt := Some now \<rparr>;
              d2 = (if accuracy stats > bestScore d1
                    then d1\<lparr> bestScore := accuracy stats \<rparr> else d1);
              d3 = (if stats_bestStreak stats > bestStreak d2
                    then d2\<lparr> bestStreak := stats_bestStreak stats \<rparr> else d2);
              d4 = (if avgTime stats \<noteq> 0 \<and>
                       (case bestTime d3 of None \<Rightarrow> True | Some t \<Rightarrow> avgTime stats < t)
                    then d3\<lparr> bestTime := Some (avgTime stats) \<rparr> else d3);
              p1 = p\<lparr> drills_modules := (drills_modules p)(drillId \<mapsto> d4),
                      totalAttempts := totalAttempts p + 1 \<rparr>;
              p5 = (if passed \<and> \<not> completed d4 then
                      let p2 = p1\<lparr> drills_modules :=
                                  (drills_modules p1)(drillId \<mapsto> d4\<lparr> completed := True \<rparr>) \<rparr>;
                          p3 = (case nextDrill drillId of
                                  None \<Rightarrow> p2
                                | Some nextDrillId \<Rightarrow>
                                    p2\<lparr> drills_modules := unlock nextDrillId (drills_modules p2) \<rparr>);
                          p4 = (if allCompleted DRILL_ORDER (drills_modules p3)
                                then p3\<lparr> drills_completed := True, scenarios_unlocked := True \<rparr>
                                else p3)
                      in checkDrillAchievements p4 drillId stats
                    else p1)
          in saveProgress sv now p5)"

text \<open>The number of Tier 1 scenarios with \<open>bestScore >= 75\<close>.\<close>

definition tier1Completed :: "(string \<rightharpoonup> unit_record) \<Rightarrow> nat" where
  "tier1Completed modules =
     length (filter (\<lambda>i. case modules i of None \<Rightarrow> False | Some r \<Rightarrow> bestScore r \<ge> 75)
       TIER_1_SCENARIOS)"

text \<open>\<open>updateScenarioProgress\<close>, with the same conventions: for an id that names an
  inherited property only the stamp of \<open>saveProgress\<close> is left in the document.\<close>

definition updateScenarioProgress ::
  "string \<Rightarrow> 'a session_stats_scheme \<Rightarrow> string \<Rightarrow> save_outcome \<Rightarrow> progress \<Rightarrow> bool \<times> progress" where
  "updateScenarioProgress scenarioId stats now sv p =
     (case property (scenarios_modules p) scenarioId of
        Undefined \<Rightarrow> (False, p)
      | Inherited \<Rightarrow> saveProgress sv now p
      | Own scenario \<Rightarrow>
          let passed = reaches (accuracy stats) (getScenarioThreshold scenarioId);
              s1 = scenario\<lparr> attempts := attempts scenario + 1, lastAttempt := Some now \<rparr>;
              s2 = (if accuracy stats > bestScore s1
                    then s1\<lparr> bestScore := accuracy stats \<rparr> else s1);
              p1 = p\<lparr> scenarios_modules := (scenarios_modules p)(scenarioId \<mapsto> s2) \<rparr>;
              p5 = (if passed \<and> \<not> completed s2 then
                      let p2 = p1\<lparr> scenarios_modules :=
                                  (scenarios_modules p1)(scenarioId \<mapsto> s2\<lparr> completed := True \<rparr>) \<rparr>;
                          p3 = (if tier1Completed (scenarios_modules p2) \<ge> 2
                                then p2\<lparr> scenarios_modules :=
                                        unlock ''cold-4bet'' (scenarios_modules p2) \<rparr>
                                else p2);
                          p4 = (if allCompleted SCENARIO_ORDER (scenarios_modules p3)
                                then p3\<lparr> scenarios_completed := True, full_hands_unlocked := True \<rparr>
                                else p3)
                      in checkScenarioAchievements p4 scenarioId stats
                    else p1)
          in saveProgress sv now p5)"

section \<open>Scenario engine (scenarios/ScenarioEngine.js)\<close>

text \<open>
  The data of a question is opaque to the engine except for its \<open>category\<close>; an empty
  category stands for a missing one (\<open>category || 'default'\<close>).
\<close>

record 'd question =
  category :: string
  payload :: 'd

text \<open>What \<open>validateAnswer\<close> returns: \<open>{ correct, correctAnswer }\<close>.\<close>

record validation =
  validation_correct :: bool
  validation_correctAnswer :: string

text \<open>The fields that the answer record and the result object share, and the two
  objects.\<close>

record answer_core =
  isCorrect :: bool
  playerAnswer :: string
  correctAnswer :: string
  time :: rat
  explanation :: string

record 'd answer_record = answer_core +
  questionNumber :: nat
  questionData :: "'d question"

text \<open>\<open>getStats()\<close>: \<open>{ currentQuestion, totalQuestions, correct, total, accuracy }\<close>.\<close>

record running_stats =
  stats_currentQuestion :: nat
  stats_totalQuestions :: nat
  stats_correct :: nat
  stats_total :: nat
  stats_accuracy :: rat

record submit_result = answer_core +
  rangeDisplay :: "string option"
  result_stats :: running_stats

record category_stat =
  cat_total :: nat
  cat_correct :: nat

text \<open>\<open>this.state\<close>\<close>

record 'd engine_state =
  active :: bool
  currentQuestion :: nat
  correct :: nat
  currentQuestionData :: "'d question option"
  questionStartTime :: rat
  questionTimes :: "rat list"
  answers :: "'d answer_record list"
  categoryStats :: "string \<rightharpoonup> category_stat"

text \<open>
  \<open>this.config\<close>, as the constructor builds it. \<open>generateQuestion\<close> may return a
  falsy value (\<open>None\<close>). The callbacks are left out: by default they do nothing.
\<close>

record 'd config =
  config_id :: string
  totalQuestions :: nat
  generateQuestion :: "'d engine_state \<Rightarrow> 'd question option"
  validateAnswer :: "string \<Rightarrow> 'd question \<Rightarrow> validation"
  getExplanation :: "'d question \<Rightarrow> validation \<Rightarrow> string"
  getRangeDisplay :: "('d question \<Rightarrow> string) option"

text \<open>The constructor: \<open>totalQuestions: config.totalQuestions || 20\<close>.\<close>

definition constructor_config :: "'d config \<Rightarrow> 'd config" where
  "constructor_config c =
     c\<lparr> totalQuestions := (if totalQuestions c = 0 then 20 else totalQuestions c) \<rparr>"

text \<open>What the engine reads from outside at a call: \<open>performance.now()\<close>, the time stamp
  \<open>new Date().toISOString()\<close>, and what saving to \<open>localStorage\<close> does.\<close>

record env =
  performance_now :: rat
  date_now :: string
  env_save :: save_outcome

text \<open>The engine's state together with the persisted progress document.\<close>

record 'd world =
  engine :: "'d engine_state"
  store :: progress

definition reset :: "'d engine_state" where
  "reset = \<lparr> active = False, currentQuestion = 0, correct = 0, currentQuestionData = None,
     questionStartTime = 0, questionTimes = [], answers = [], categoryStats = Map.empty \<rparr>"

text \<open>\<open>Math.round\<close>, in exact arithmetic (the source rounds the floating-point
  value of \<open>(correct / total) * 100\<close>, which can fall on the other side of a tie).\<close>

definition Math_round :: "rat \<Rightarrow> rat" where
  "Math_round x = of_int \<lfloor>x + 1 / 2\<rfloor>"

definition getStats :: "'d config \<Rightarrow> 'd engine_state \<Rightarrow> running_stats" where
  "getStats cfg st =
     (let total = currentQuestion st; correct = correct st in
      \<lparr> stats_currentQuestion = currentQuestion st,
        stats_totalQuestions = totalQuestions cfg,
        stats_correct = correct,
        stats_total = total,
        stats_accuracy = (if total > 0 then Math_round (of_nat correct / of_nat total * 100)
                          else 0) \<rparr>)"

text \<open>\<open>getFinalStats()\<close>: the statistics handed to the progress store, with the fields
  \<open>correct\<close>, \<open>total\<close>, \<open>fastestTime\<close> and \<open>passed\<close>.\<close>

record final_stats = session_stats +
  final_correct :: nat
  final_total :: nat
  fastestTime :: rat
  passed :: bool

definition getFinalStats :: "'d config \<Rightarrow> 'd engine_state \<Rightarrow> final_stats" where
  "getFinalStats cfg st =
     (let total = totalQuestions cfg;
          correct = correct st;
          accuracy = Math_round (of_nat correct / of_nat total * 100);
          avgTime = (if length (questionTimes st) > 0
                     then sum_list (questionTimes st) / of_nat (length (questionTimes st))
                     else 0);
          fastestTime = (if length (questionTimes st) > 0
                         then Min (set (questionTimes st)) else 0)
      in \<lparr> accuracy = accuracy, avgTime = avgTime, final_correct = correct,
           final_total = total, fastestTime = fastestTime,
           passed = reaches accuracy (getScenarioThreshold (config_id cfg)) \<rparr>)"

text \<open>\<open>endScenario()\<close>: the only place where the engine writes to the progress store.\<close>

definition endScenario :: "'d config \<Rightarrow> env \<Rightarrow> 'd world \<Rightarrow> 'd world" where
  "endScenario cfg e w =
     (let st = (engine w)\<lparr> active := False \<rparr>;
          stats = getFinalStats cfg st
      in \<lparr> engine = st,
           store = snd (updateScenarioProgress (config_id cfg) stats (date_now e) (env_save e)
                          (store w)) \<rparr>)"

text \<open>\<open>nextQuestion()\<close>\<close>

definition nextQuestion :: "'d config \<Rightarrow> env \<Rightarrow> 'd world \<Rightarrow> 'd world" where
  "nextQuestion cfg e w =
     (if \<not> active (engine w) then w
      else if currentQuestion (engine w) \<ge> totalQuestions cfg then endScenario cfg e w
      else
        let st1 = (engine w)\<lparr> currentQuestion := currentQuestion (engine w) + 1,
                               questionStartTime := performance_now e \<rparr>;
            st2 = st1\<lparr> currentQuestionData := generateQuestion cfg st1 \<rparr>
        in w\<lparr> engine := st2 \<rparr>)"

text \<open>\<open>start()\<close> and \<open>stop()\<close>\<close>

definition start :: "'d config \<Rightarrow> env \<Rightarrow> 'd world \<Rightarrow> 'd world" where
  "start cfg e w = nextQuestion cfg e (w\<lparr> engine := reset\<lparr> active := True \<rparr> \<rparr>)"

definition stop :: "'d world \<Rightarrow> 'd world" where
  "stop w = w\<lparr> engine := (engine w)\<lparr> active := False \<rparr> \<rparr>"

text \<open>
  \<open>submitAnswer(answer)\<close>: the result (\<open>None\<close> is \<open>null\<close>) and the world after the
  call. The guard \<open>!this.state.active || !this.state.currentQuestionData\<close> is the last
  case.
\<close>

definition submitAnswer ::
  "'d config \<Rightarrow> env \<Rightarrow> string \<Rightarrow> 'd world \<Rightarrow> submit_result option \<times> 'd world" where
  "submitAnswer cfg e answer w =
     (case (active (engine w), currentQuestionData (engine w)) of
        (True, Some q) \<Rightarrow>
          let st = engine w;
              questionTime = performance_now e - questionStartTime st;
              st1 = st\<lparr> questionTimes := questionTimes st @ [questionTime] \<rparr>;
              validation = validateAnswer cfg answer q;
              isCorrect = validation_correct validation;
              st2 = (if isCorrect then st1\<lparr> correct := correct st1 + 1 \<rparr> else st1);
              cat = (if category q = [] then ''default'' else category q);
              cs0 = (case categoryStats st2 cat of
                       None \<Rightarrow> \<lparr> cat_total = 0, cat_correct = 0 \<rparr> | Some c \<Rightarrow> c);
              cs1 = cs0\<lparr> cat_total := cat_total cs0 + 1 \<rparr>;
              cs2 = (if isCorrect then cs1\<lparr> cat_correct := cat_correct cs1 + 1 \<rparr> else cs1);
              st3 = st2\<lparr> categoryStats := (categoryStats st2)(cat \<mapsto> cs2) \<rparr>;
              explanation = getExplanation cfg q validation;
              rangeDisplay = (case getRangeDisplay cfg of None \<Rightarrow> None | Some f \<Rightarrow> Some (f q));
              answerRecord = \<lparr> isCorrect = isCorrect, playerAnswer = answer,
                               correctAnswer = validation_correctAnswer validation,
                               time = questionTime, explanation = explanation,
                               questionNumber = currentQuestion st3, questionData = q \<rparr>;
              st4 = st3\<lparr> answers := answers st3 @ [answerRecord] \<rparr>;
              result = \<lparr> isCorrect = isCorrect, playerAnswer = answer,
                         correctAnswer = validation_correctAnswer validation,
                         time = questionTime, explanation = explanation,
                         rangeDisplay = rangeDisplay, result_stats = getStats cfg st4 \<rparr>
          in (Some result, w\<lparr> engine := st4 \<rparr>)
      | _ \<Rightarrow> (None, w))"

section \<open>Notions used to state the properties\<close>

subsection \<open>Hand model\<close>

text \<open>
  A valid notation, in the words of the specification: two or three characters, the first
  two rank letters (in either case, since the code upper-cases them), the optional third
  the suited/offsuit suffix.
\<close>

definition valid_notation :: "string \<Rightarrow> bool" where
  "valid_notation n \<longleftrightarrow>
     (length n = 2 \<or> length n = 3) \<and>
     toUpperCase (n ! 0) \<in> set RANKS \<and> toUpperCase (n ! 1) \<in> set RANKS \<and>
     (length n = 3 \<longrightarrow> toLowerCase (n ! 2) \<in> {CHR ''s'', CHR ''o''})"

text \<open>What the round trip through the grid has to give at one cell.\<close>

definition grid_cell_ok :: "int \<Rightarrow> int \<Rightarrow> bool" where
  "grid_cell_ok r c \<longleftrightarrow>
     getGridPosition (getHandFromGrid r c) = Some \<lparr> row = r, col = c \<rparr> \<and>
     map_option pair (parseHand (getHandFromGrid r c)) = Some (r = c) \<and>
     map_option suited (parseHand (getHandFromGrid r c)) = Some (r < c) \<and>
     map_option offsuit (parseHand (getHandFromGrid r c)) = Some (c < r)"

definition in_grid :: "gridpos option \<Rightarrow> bool" where
  "in_grid p = (case p of None \<Rightarrow> False
     | Some g \<Rightarrow> 0 \<le> row g \<and> row g \<le> 12 \<and> 0 \<le> col g \<and> col g \<le> 12)"

definition grid_cells :: "gridpos option set" where
  "grid_cells = {Some \<lparr> row = r, col = c \<rparr> | r c. r \<in> {0..12} \<and> c \<in> {0..12}}"

subsection \<open>Board classifier\<close>

text \<open>The value of a rank letter: \<open>A\<close> is 14, \<open>K\<close> 13, down to 2 for \<open>2\<close>.\<close>

definition rank_number :: "char \<Rightarrow> int" where
  "rank_number r = 14 - indexOf RANKS r"

text \<open>Every gap between adjacent values is at most 2, when the three values are put in
  ascending order: lowest, middle, highest.\<close>

definition gaps_at_most_2 :: "int \<Rightarrow> int \<Rightarrow> int \<Rightarrow> bool" where
  "gaps_at_most_2 a b c =
     (let lo = min a (min b c); hi = max a (max b c); mid = a + b + c - lo - hi in
      mid - lo \<le> 2 \<and> hi - mid \<le> 2)"

text \<open>
  The classifier in the words of the specification: monotone if all three cards share a
  suit; otherwise paired if any two ranks are equal; otherwise wet if exactly two cards
  share a suit or every gap between adjacent sorted rank values is at most 2; otherwise
  dry.
\<close>

definition texture_spec :: "card \<Rightarrow> card \<Rightarrow> card \<Rightarrow> string" where
  "texture_spec c1 c2 c3 =
     (if suit c1 = suit c2 \<and> suit c2 = suit c3 then ''monotone''
      else if rank c1 = rank c2 \<or> rank c2 = rank c3 \<or> rank c1 = rank c3 then ''paired''
      else if (suit c1 = suit c2 \<or> suit c2 = suit c3 \<or> suit c1 = suit c3)
              \<or> gaps_at_most_2 (rank_number (rank c1)) (rank_number (rank c2))
                    (rank_number (rank c3))
      then ''wet''
      else ''dry'')"

subsection \<open>Progress store\<close>

text \<open>One \<open>recordAttempt\<close> call: a drill or a scenario attempt, with the statistics of
  the session, the time stamp and what the save does.\<close>

datatype attempt =
  DrillAttempt string drill_stats string save_outcome
| ScenarioAttempt string session_stats string save_outcome

fun recordAttempt :: "attempt \<Rightarrow> progress \<Rightarrow> progress" where
  "recordAttempt (DrillAttempt drillId stats now sv) p =
     snd (updateDrillProgress drillId stats now sv p)"
| "recordAttempt (ScenarioAttempt scenarioId stats now sv) p =
     snd (updateScenarioProgress scenarioId stats now sv p)"

text \<open>The call's save succeeds.\<close>

fun saved :: "attempt \<Rightarrow> bool" where
  "saved (DrillAttempt drillId stats now sv) = (sv = Saved)"
| "saved (ScenarioAttempt scenarioId stats now sv) = (sv = Saved)"

text \<open>The document after a sequence of calls, the first call of the list first.\<close>

definition after_attempts :: "attempt list \<Rightarrow> progress \<Rightarrow> progress" where
  "after_attempts calls p = fold recordAttempt calls p"

text \<open>Every record of the first table is in the second one, related by \<open>R\<close>.\<close>

definition modules_rel :: "('r \<Rightarrow> 'r \<Rightarrow> bool) \<Rightarrow> (string \<rightharpoonup> 'r) \<Rightarrow> (string \<rightharpoonup> 'r) \<Rightarrow> bool" where
  "modules_rel R m m' \<longleftrightarrow> (\<forall>i r. m i = Some r \<longrightarrow> (\<exists>r'. m' i = Some r' \<and> R r r'))"

text \<open>The best values of the second record are at least as good, and it is completed if
  the first one is.\<close>

definition unit_le :: "'a unit_record_scheme \<Rightarrow> 'a unit_record_scheme \<Rightarrow> bool" where
  "unit_le r r' \<longleftrightarrow> bestScore r \<le> bestScore r' \<and> (completed r \<longrightarrow> completed r')"

definition drill_le :: "drill_record \<Rightarrow> drill_record \<Rightarrow> bool" where
  "drill_le r r' \<longleftrightarrow>
     unit_le r r' \<and> bestStreak r \<le> bestStreak r' \<and>
     (\<forall>t. bestTime r = Some t \<longrightarrow> (\<exists>t'. bestTime r' = Some t' \<and> t' \<le> t))"

text \<open>The table of scenario records after one \<open>updateScenarioProgress\<close> that is saved.\<close>

definition scenario_step :: "string \<Rightarrow> rat \<Rightarrow> string \<Rightarrow> unit_record \<Rightarrow> (string \<rightharpoonup> unit_record) \<Rightarrow> (string \<rightharpoonup> unit_record)" where
  "scenario_step sid acc now r m =
     (let s2 = r\<lparr> attempts := attempts r + 1, lastAttempt := Some now,
                  bestScore := max (bestScore r) acc \<rparr>
      in if reaches acc (getScenarioThreshold sid) \<and> \<not> completed r
         then (let m2 = m(sid \<mapsto> s2\<lparr> completed := True \<rparr>)
               in if tier1Completed m2 \<ge> 2 then unlock ''cold-4bet'' m2 else m2)
         else m(sid \<mapsto> s2))"

text \<open>The drill's record after the attempt is counted and the best values are
  updated.\<close>

definition drill_after :: "drill_stats \<Rightarrow> string \<Rightarrow> drill_record \<Rightarrow> drill_record" where
  "drill_after stats now drill =
     (let d1 = drill\<lparr> attempts := attempts drill + 1, lastAttempt := Some now \<rparr>;
          d2 = (if accuracy stats > bestScore d1
                then d1\<lparr> bestScore := accuracy stats \<rparr> else d1);
          d3 = (if stats_bestStreak stats > bestStreak d2
                then d2\<lparr> bestStreak := stats_bestStreak stats \<rparr> else d2)
      in (if avgTime stats \<noteq> 0 \<and>
             (case bestTime d3 of None \<Rightarrow> True | Some t \<Rightarrow> avgTime stats < t)
          then d3\<lparr> bestTime := Some (avgTime stats) \<rparr> else d3))"

text \<open>The table of drill records after one \<open>updateDrillProgress\<close> that is saved.\<close>

definition drill_step :: "string \<Rightarrow> drill_stats \<Rightarrow> string \<Rightarrow> drill_record \<Rightarrow> (string \<rightharpoonup> drill_record) \<Rightarrow> (string \<rightharpoonup> drill_record)" where
  "drill_step i stats now r m =
     (if reaches (accuracy stats) (getDrillThreshold i) \<and> \<not> completed (drill_after stats now r)
      then (let m2 = m(i \<mapsto> (drill_after stats now r)\<lparr> completed := True \<rparr>)
            in case nextDrill i of None \<Rightarrow> m2 | Some n \<Rightarrow> unlock n m2)
      else m(i \<mapsto> drill_after stats now r))"

subsection \<open>Scenario engine: a session used as example\<close>

text \<open>A scenario of 20 questions, all in the category "BTN", whose right answer is
  "Fold".\<close>

definition example_config :: "unit config" where
  "example_config = \<lparr> config_id = ''defend-3bet'', totalQuestions = 20,
     generateQuestion = (\<lambda>st. Some \<lparr> category = ''BTN'', payload = () \<rparr>),
     validateAnswer = (\<lambda>answer q.
        \<lparr> validation_correct = (answer = ''Fold''), validation_correctAnswer = ''Fold'' \<rparr>),
     getExplanation = (\<lambda>q v. ''''),
     getRangeDisplay = None \<rparr>"

definition example_env :: "rat \<Rightarrow> env" where
  "example_env t = \<lparr> performance_now = t, date_now = ''2025-01-01T00:00:00.000Z'',
     env_save = Saved \<rparr>"

text \<open>The session after \<open>start()\<close> at time 1000, after a first \<open>submitAnswer\<close> at time
  2500, and after a second one at time 3500 with no \<open>nextQuestion()\<close> in between.\<close>

definition example_started :: "unit world" where
  "example_started =
     start example_config (example_env 1000) \<lparr> engine = reset, store = DEFAULT_PROGRESS \<rparr>"

definition example_answered :: "unit world" where
  "example_answered =
     snd (submitAnswer example_config (example_env 2500) ''Fold'' example_started)"

definition example_answered_twice :: "unit world" where
  "example_answered_twice =
     snd (submitAnswer example_config (example_env 3500) ''Call'' example_answered)"

section \<open>Properties of the hand model\<close>

subsection \<open>Normalisation\<close>

lemma toUpperCase_idem: "toUpperCase (toUpperCase c) = toUpperCase c"
  by (auto simp: toUpperCase_def split: option.splits if_splits)

lemma toLowerCase_idem: "toLowerCase (toLowerCase c) = toLowerCase c"
  by (auto simp: toLowerCase_def split: option.splits if_splits)

lemma toLowerCase_o: "toLowerCase (CHR ''o'') = CHR ''o''"
  by (simp add: toLowerCase_def)

lemma suffix_or_o_simps: "suffix_or_o (Some s) = s" "suffix_or_o None = CHR ''o''"
  by (simp_all add: suffix_or_o_def)

lemma suffix_or_o_lower: "toLowerCase (suffix_or_o (suffix_of cs)) = suffix_or_o (suffix_of cs)"
  by (cases cs) (simp_all add: suffix_or_o_def toLowerCase_idem toLowerCase_o)

lemma suffix_or_o_idem:
  "suffix_or_o (suffix_of [suffix_or_o (suffix_of cs)]) = suffix_or_o (suffix_of cs)"
  by (simp add: suffix_or_o_simps suffix_or_o_lower)

lemma normalizeHand_unfold:
  "normalizeHand (c1 # c2 # cs) =
     (let a = (if indexOf RANKS (toUpperCase c1) > indexOf RANKS (toUpperCase c2)
               then toUpperCase c2 else toUpperCase c1);
          b = (if indexOf RANKS (toUpperCase c1) > indexOf RANKS (toUpperCase c2)
               then toUpperCase c1 else toUpperCase c2) in
      Inr (Some (if a = b then [a, b] else [a, b, suffix_or_o (suffix_of cs)])))"
  by (simp add: Let_def)

lemma normalizeHand_idem:
  assumes "normalizeHand (c1 # c2 # cs) = Inr (Some m)"
  shows "normalizeHand m = Inr (Some m)"
  using assms unfolding normalizeHand_unfold
  by (auto simp: Let_def toUpperCase_idem suffix_or_o_simps suffix_or_o_lower
        normalizeHand_unfold split: if_splits)

text \<open>
  Claim C4. On every valid two- or three-character notation \<open>normalizeHand\<close> returns a
  string on which it is idempotent; the result has the higher rank (the smaller index in
  \<open>RANKS\<close>) first and consists of the two upper-cased input ranks; a pair has no
  suffix; a non-pair without suffix gets \<open>o\<close>, one with a suffix keeps it in lower
  case; and "AKs" and "KAs" both normalise to "AKs".
\<close>

theorem normalizeHand_canonical:
  assumes "valid_notation n"
  shows "(\<exists>m. normalizeHand n = Inr (Some m) \<and> normalizeHand m = Inr (Some m) \<and>
              indexOf RANKS (m ! 0) \<le> indexOf RANKS (m ! 1) \<and>
              {m ! 0, m ! 1} = {toUpperCase (n ! 0), toUpperCase (n ! 1)} \<and>
              (toUpperCase (n ! 0) = toUpperCase (n ! 1) \<longrightarrow> m = [m ! 0, m ! 1]) \<and>
              (toUpperCase (n ! 0) \<noteq> toUpperCase (n ! 1) \<and> length n = 2 \<longrightarrow>
                 m = [m ! 0, m ! 1, CHR ''o'']) \<and>
              (toUpperCase (n ! 0) \<noteq> toUpperCase (n ! 1) \<and> length n = 3 \<longrightarrow>
                 m = [m ! 0, m ! 1, toLowerCase (n ! 2)])) \<and>
         normalizeHand ''AKs'' = Inr (Some ''AKs'') \<and>
         normalizeHand ''KAs'' = Inr (Some ''AKs'')"
proof -
  from assms obtain c1 c2 cs where n: "n = c1 # c2 # cs" and cs: "cs = [] \<or> (\<exists>c3. cs = [c3])"
    unfolding valid_notation_def
    by (cases n; cases "tl n"; cases "tl (tl n)") auto
  obtain m where m: "normalizeHand n = Inr (Some m)"
    unfolding n normalizeHand_unfold by (simp add: Let_def)
  have idem: "normalizeHand m = Inr (Some m)"
    using m unfolding n by (rule normalizeHand_idem)
  have rest: "indexOf RANKS (m ! 0) \<le> indexOf RANKS (m ! 1) \<and>
              {m ! 0, m ! 1} = {toUpperCase (n ! 0), toUpperCase (n ! 1)} \<and>
              (toUpperCase (n ! 0) = toUpperCase (n ! 1) \<longrightarrow> m = [m ! 0, m ! 1]) \<and>
              (toUpperCase (n ! 0) \<noteq> toUpperCase (n ! 1) \<and> length n = 2 \<longrightarrow>
                 m = [m ! 0, m ! 1, CHR ''o'']) \<and>
              (toUpperCase (n ! 0) \<noteq> toUpperCase (n ! 1) \<and> length n = 3 \<longrightarrow>
                 m = [m ! 0, m ! 1, toLowerCase (n ! 2)])"
    using m cs unfolding n normalizeHand_unfold
    by (auto simp: Let_def suffix_or_o_simps split: if_splits)
  have ak: "normalizeHand ''AKs'' = Inr (Some ''AKs'')"
    and ka: "normalizeHand ''KAs'' = Inr (Some ''AKs'')"
    by (simp_all add: toUpperCase_def toLowerCase_def RANKS_def suffix_or_o_simps)
  have "normalizeHand n = Inr (Some m) \<and> normalizeHand m = Inr (Some m) \<and>
        indexOf RANKS (m ! 0) \<le> indexOf RANKS (m ! 1) \<and>
        {m ! 0, m ! 1} = {toUpperCase (n ! 0), toUpperCase (n ! 1)} \<and>
        (toUpperCase (n ! 0) = toUpperCase (n ! 1) \<longrightarrow> m = [m ! 0, m ! 1]) \<and>
        (toUpperCase (n ! 0) \<noteq> toUpperCase (n ! 1) \<and> length n = 2 \<longrightarrow>
           m = [m ! 0, m ! 1, CHR ''o'']) \<and>
        (toUpperCase (n ! 0) \<noteq> toUpperCase (n ! 1) \<and> length n = 3 \<longrightarrow>
           m = [m ! 0, m ! 1, toLowerCase (n ! 2)])"
    by (rule conjI, rule m, rule conjI, rule idem, rule rest)
  then have "\<exists>m. normalizeHand n = Inr (Some m) \<and> normalizeHand m = Inr (Some m) \<and>
        indexOf RANKS (m ! 0) \<le> indexOf RANKS (m ! 1) \<and>
        {m ! 0, m ! 1} = {toUpperCase (n ! 0), toUpperCase (n ! 1)} \<and>
        (toUpperCase (n ! 0) = toUpperCase (n ! 1) \<longrightarrow> m = [m ! 0, m ! 1]) \<and>
        (toUpperCase (n ! 0) \<noteq> toUpperCase (n ! 1) \<and> length n = 2 \<longrightarrow>
           m = [m ! 0, m ! 1, CHR ''o'']) \<and>
        (toUpperCase (n ! 0) \<noteq> toUpperCase (n ! 1) \<and> length n = 3 \<longrightarrow>
           m = [m ! 0, m ! 1, toLowerCase (n ! 2)])"
    by (rule exI [where x = m])
  then show ?thesis using ak ka by (intro conjI)
qed

theorem normalizeHand_canonical_witness:
  "valid_notation ''ka'' \<and> valid_notation ''77s'' \<and> valid_notation ''Q2S'' \<and>
   (\<exists>m. normalizeHand ''ka'' = Inr (Some m) \<and> normalizeHand m = Inr (Some m) \<and>
        m = [m ! 0, m ! 1, CHR ''o'']) \<and>
   (\<exists>m. normalizeHand ''77s'' = Inr (Some m) \<and> normalizeHand m = Inr (Some m) \<and>
        m = [m ! 0, m ! 1]) \<and>
   (\<exists>m. normalizeHand ''Q2S'' = Inr (Some m) \<and> normalizeHand m = Inr (Some m) \<and>
        m = [m ! 0, m ! 1, CHR ''s''])"
proof -
  have v: "valid_notation ''ka''" "valid_notation ''77s''" "valid_notation ''Q2S''"
    by (simp_all add: valid_notation_def toUpperCase_def toLowerCase_def RANKS_def)
  have u: "toUpperCase CHR ''k'' \<noteq> toUpperCase CHR ''a''"
    "toUpperCase CHR ''7'' = toUpperCase CHR ''7''"
    "toUpperCase CHR ''Q'' \<noteq> toUpperCase CHR ''2''" "toLowerCase CHR ''S'' = CHR ''s''"
    by (simp_all add: toUpperCase_def toLowerCase_def)
  have a: "\<exists>m. normalizeHand ''ka'' = Inr (Some m) \<and> normalizeHand m = Inr (Some m) \<and>
        m = [m ! 0, m ! 1, CHR ''o'']"
    using normalizeHand_canonical [OF v(1)] u(1) by (auto simp del: normalizeHand.simps)
  have b: "\<exists>m. normalizeHand ''77s'' = Inr (Some m) \<and> normalizeHand m = Inr (Some m) \<and>
        m = [m ! 0, m ! 1]"
    using normalizeHand_canonical [OF v(2)] by (auto simp del: normalizeHand.simps)
  have c: "\<exists>m. normalizeHand ''Q2S'' = Inr (Some m) \<and> normalizeHand m = Inr (Some m) \<and>
        m = [m ! 0, m ! 1, CHR ''s'']"
    using normalizeHand_canonical [OF v(3)] u(3,4) by (auto simp del: normalizeHand.simps)
  show ?thesis using v a b c by (intro conjI)
qed

subsection \<open>The 13x13 grid\<close>

lemma grid_cells_checked: "list_all (\<lambda>r. list_all (grid_cell_ok r) [0..12]) [0..12]"
  by code_simp

lemma grid_cell_ok_all:
  assumes "r \<in> {0..12}" "c \<in> {0..12}"
  shows "grid_cell_ok r c"
  using grid_cells_checked assms by (simp add: list_all_iff)

lemma all_hands_distinct: "distinct (map getGridPosition ALL_HANDS)"
  by code_simp

lemma all_hands_in_grid: "list_all in_grid (map getGridPosition ALL_HANDS)"
  by code_simp

lemma all_hands_length: "length ALL_HANDS = 169"
  by code_simp

lemma grid_cells_image:
  "grid_cells = (\<lambda>(r, c). Some \<lparr> row = r, col = c \<rparr>) ` ({0..12} \<times> {0..12})"
  by (auto simp: grid_cells_def)

lemma card_grid_cells: "card grid_cells = 169"
proof -
  have "inj_on (\<lambda>(r, c). Some \<lparr> row = r, col = c \<rparr>) ({0..12::int} \<times> {0..12::int})"
    by (auto simp: inj_on_def)
  then have "card grid_cells = card ({0..12::int} \<times> {0..12::int})"
    unfolding grid_cells_image by (rule card_image)
  then show ?thesis by simp
qed

lemma in_grid_cells: "in_grid p \<Longrightarrow> p \<in> grid_cells"
proof -
  assume a: "in_grid p"
  then obtain g where g: "p = Some g" by (cases p) (simp_all add: in_grid_def)
  have "g = \<lparr> row = row g, col = col g \<rparr>" by simp
  moreover have "row g \<in> {0..12}" "col g \<in> {0..12}" using a g by (simp_all add: in_grid_def)
  ultimately show ?thesis unfolding grid_cells_def g by blast
qed

lemma all_hands_cover: "set (map getGridPosition ALL_HANDS) = grid_cells"
proof (rule card_subset_eq)
  show "finite grid_cells" unfolding grid_cells_image by simp
  show "set (map getGridPosition ALL_HANDS) \<subseteq> grid_cells"
    using all_hands_in_grid in_grid_cells by (auto simp: list_all_iff)
  show "card (set (map getGridPosition ALL_HANDS)) = card grid_cells"
    using all_hands_distinct all_hands_length
    by (simp add: distinct_card card_grid_cells del: set_map)
qed

text \<open>
  Claim C3. For every row and column in 0..12, \<open>getGridPosition\<close> of
  \<open>getHandFromGrid\<close> gives the cell back, and the hand is a pair on the diagonal,
  suited above it and offsuit below it. \<open>ALL_HANDS\<close> (the result of
  \<open>generateAllHands\<close>) has 169 elements, whose grid positions are pairwise
  distinct and are exactly the 169 cells of the grid.
\<close>

theorem grid_bijection:
  "(\<forall>r\<in>{0..12}. \<forall>c\<in>{0..12}.
      getGridPosition (getHandFromGrid r c) = Some \<lparr> row = r, col = c \<rparr> \<and>
      map_option pair (parseHand (getHandFromGrid r c)) = Some (r = c) \<and>
      map_option suited (parseHand (getHandFromGrid r c)) = Some (r < c) \<and>
      map_option offsuit (parseHand (getHandFromGrid r c)) = Some (c < r)) \<and>
   ALL_HANDS = generateAllHands \<and>
   length ALL_HANDS = 169 \<and>
   distinct (map getGridPosition ALL_HANDS) \<and>
   set (map getGridPosition ALL_HANDS) =
     {Some \<lparr> row = r, col = c \<rparr> | r c. r \<in> {0..12} \<and> c \<in> {0..12}}"
  using grid_cell_ok_all all_hands_length all_hands_distinct all_hands_cover
  unfolding grid_cell_ok_def grid_cells_def ALL_HANDS_def by blast

theorem grid_bijection_witness:
  "(3::int) \<in> {0..12} \<and> (5::int) \<in> {0..12} \<and>
   getGridPosition (getHandFromGrid 3 5) = Some \<lparr> row = 3, col = 5 \<rparr> \<and>
   map_option suited (parseHand (getHandFromGrid 3 5)) = Some True"
proof -
  have r: "(3::int) \<in> {0..12}" and c: "(5::int) \<in> {0..12}" by simp_all
  note cell = bspec [OF bspec [OF conjunct1 [OF grid_bijection] r] c]
  from cell have "getGridPosition (getHandFromGrid 3 5) = Some \<lparr> row = 3, col = 5 \<rparr>"
    by (rule conjunct1)
  moreover from cell have "map_option suited (parseHand (getHandFromGrid 3 5)) = Some ((3::int) < 5)"
    by (elim conjE)
  ultimately show ?thesis using r c by simp
qed

subsection \<open>Equity lookup and parsing\<close>

lemma equity_table_bounds: "list_all (\<lambda>(k, v). 30 < v \<and> v \<le> 85) PREFLOP_EQUITY"
  unfolding PREFLOP_EQUITY_def by simp

lemma equity_lookup_bounds:
  assumes "map_of PREFLOP_EQUITY k = Some v"
  shows "30 < v \<and> v \<le> 85"
proof -
  from assms have "(k, v) \<in> set PREFLOP_EQUITY" by (rule map_of_SomeD)
  with equity_table_bounds show ?thesis by (auto simp: list_all_iff)
qed

lemma normalizeHand_returns:
  assumes "length n \<noteq> 1"
  shows "\<exists>k. normalizeHand n = Inr k"
proof (cases n)
  case Nil
  then show ?thesis by simp
next
  case (Cons c1 cs)
  with assms obtain c2 cs' where "n = c1 # c2 # cs'" by (cases cs) auto
  then show ?thesis by (simp add: Let_def split: prod.splits)
qed

text \<open>
  Claim C5, as amended. \<open>getEquity\<close> returns a percentage: for every notation that
  is empty or has at least two characters it returns a value between 0 and 100 (its
  hundredth, \<open>getHandStrength\<close>, lies between 0 and 1), and whenever the normalised
  notation is not a key of \<open>PREFLOP_EQUITY\<close> the value is the fixed fallback 30.
\<close>

theorem getEquity_percentage:
  assumes "length n \<noteq> 1"
  shows "\<exists>v. getEquity n = Inr v \<and> 0 \<le> v \<and> v \<le> 100 \<and> getHandStrength n = Inr (v / 100) \<and>
             0 \<le> v / 100 \<and> v / 100 \<le> 1 \<and>
             (\<forall>k. normalizeHand n = Inr k \<and> map_of PREFLOP_EQUITY (property_key k) = None
                \<longrightarrow> v = 30)"
proof -
  from assms obtain k where k: "normalizeHand n = Inr k"
    using normalizeHand_returns by blast
  show ?thesis
  proof (cases "map_of PREFLOP_EQUITY (property_key k)")
    case None
    with k show ?thesis by (simp add: getEquity_def getHandStrength_def)
  next
    case (Some v)
    with equity_lookup_bounds have "30 < v \<and> v \<le> 85" by blast
    with k Some show ?thesis by (simp add: getEquity_def getHandStrength_def)
  qed
qed

theorem getEquity_percentage_witness:
  "length ''XYs'' \<noteq> 1 \<and> normalizeHand ''XYs'' = Inr (Some ''XYs'') \<and>
   map_of PREFLOP_EQUITY (property_key (Some ''XYs'')) = None \<and>
   getEquity ''XYs'' = Inr 30"
proof -
  have l: "length ''XYs'' \<noteq> 1" by simp
  have n: "normalizeHand ''XYs'' = Inr (Some ''XYs'')"
    by (simp add: toUpperCase_def toLowerCase_def RANKS_def suffix_or_o_simps)
  have t: "map_of PREFLOP_EQUITY (property_key (Some ''XYs'')) = None"
    by (simp add: PREFLOP_EQUITY_def property_key_def)
  from getEquity_percentage [OF l] n t have "getEquity ''XYs'' = Inr 30" by blast
  with l n t show ?thesis by (intro conjI)
qed

text \<open>
  Claim C5 as stated fails: the equity of "AA" is 85, which is not in the interval from 0
  to 1.
\<close>

theorem getEquity_not_unit_interval:
  "getEquity ''AA'' = Inr 85 \<and> \<not> ((85::rat) \<le> 1)"
  by (simp add: getEquity_def PREFLOP_EQUITY_def property_key_def toUpperCase_def RANKS_def)

text \<open>
  Claim C6 as stated fails: neither \<open>X\<close> nor \<open>Y\<close> is a rank letter, and
  \<open>parseHand\<close> still returns a hand for "XY".
\<close>

theorem parseHand_no_rank_check:
  "CHR ''X'' \<notin> set RANKS \<and> CHR ''Y'' \<notin> set RANKS \<and>
   parseHand ''XY'' = Some \<lparr> rank1 = CHR ''X'', rank2 = CHR ''Y'', suited = False,
     offsuit = False, pair = False, hand_notation = ''XYo'' \<rparr>"
  by (simp add: RANKS_def toUpperCase_def suffix_or_o_simps Let_def)

text \<open>
  Claim C6, as amended. \<open>parseHand\<close> returns no hand exactly for the notations of
  fewer than two characters; for every longer notation it returns a hand whose two ranks are
  the upper-cased first two characters, whether or not they are rank letters.
\<close>

theorem parseHand_fails_iff_short:
  "(parseHand n = None) = (length n < 2) \<and>
   map_option rank1 (parseHand (c1 # c2 # cs)) = Some (toUpperCase c1) \<and>
   map_option rank2 (parseHand (c1 # c2 # cs)) = Some (toUpperCase c2)"
proof -
  have "(parseHand n = None) = (length n < 2)"
    by (cases n rule: parseHand.cases) (simp_all add: Let_def)
  then show ?thesis by (simp add: Let_def)
qed

section \<open>Properties of the board classifier\<close>

lemma getRankValue_rank:
  assumes "r \<in> set RANKS"
  shows "getRankValue r = Some (rank_number r)"
  using assms unfolding RANKS_def
  by (auto simp: getRankValue_def parseInt_def rank_number_def RANKS_def)

lemma hasTwoTone_three:
  "hasTwoTone [s1, s2, s3] = ((s1 = s2 \<or> s2 = s3 \<or> s1 = s3) \<and> \<not> (s1 = s2 \<and> s2 = s3))"
  by (auto simp: hasTwoTone_def suitCounts_def)

lemma isConnected_three:
  "isConnected [Some a, Some b, Some c] = gaps_at_most_2 a b c"
  by (auto simp: isConnected_def gaps_def gaps_at_most_2_def Let_def min_def max_def)

text \<open>
  Claim C7. On every three-card board whose ranks are rank letters,
  \<open>analyzeBoardTexture\<close> is the specification's classifier (monotone, else paired, else
  wet when exactly two cards share a suit or all gaps between the sorted rank values are at
  most 2, else dry); in particular Kh 7d 2c is dry, Jh Th 9c is wet, Kc Kd 4s is paired and
  9h 6h 3h is monotone.
\<close>

theorem analyzeBoardTexture_classifier:
  assumes "rank c1 \<in> set RANKS" "rank c2 \<in> set RANKS" "rank c3 \<in> set RANKS"
  shows "analyzeBoardTexture [c1, c2, c3] = texture_spec c1 c2 c3 \<and>
    analyzeBoardTexture [\<lparr>rank = CHR ''K'', suit = CHR ''h''\<rparr>,
      \<lparr>rank = CHR ''7'', suit = CHR ''d''\<rparr>, \<lparr>rank = CHR ''2'', suit = CHR ''c''\<rparr>] = ''dry'' \<and>
    analyzeBoardTexture [\<lparr>rank = CHR ''J'', suit = CHR ''h''\<rparr>,
      \<lparr>rank = CHR ''T'', suit = CHR ''h''\<rparr>, \<lparr>rank = CHR ''9'', suit = CHR ''c''\<rparr>] = ''wet'' \<and>
    analyzeBoardTexture [\<lparr>rank = CHR ''K'', suit = CHR ''c''\<rparr>,
      \<lparr>rank = CHR ''K'', suit = CHR ''d''\<rparr>, \<lparr>rank = CHR ''4'', suit = CHR ''s''\<rparr>] = ''paired'' \<and>
    analyzeBoardTexture [\<lparr>rank = CHR ''9'', suit = CHR ''h''\<rparr>,
      \<lparr>rank = CHR ''6'', suit = CHR ''h''\<rparr>, \<lparr>rank = CHR ''3'', suit = CHR ''h''\<rparr>] = ''monotone''"
proof -
  have general: "analyzeBoardTexture [c1, c2, c3] = texture_spec c1 c2 c3"
    using assms
    by (simp add: analyzeBoardTexture_def texture_spec_def Let_def getRankValue_rank
        hasTwoTone_three isConnected_three)
  have dry: "analyzeBoardTexture [\<lparr>rank = CHR ''K'', suit = CHR ''h''\<rparr>,
      \<lparr>rank = CHR ''7'', suit = CHR ''d''\<rparr>, \<lparr>rank = CHR ''2'', suit = CHR ''c''\<rparr>] = ''dry''"
    by code_simp
  have wet: "analyzeBoardTexture [\<lparr>rank = CHR ''J'', suit = CHR ''h''\<rparr>,
      \<lparr>rank = CHR ''T'', suit = CHR ''h''\<rparr>, \<lparr>rank = CHR ''9'', suit = CHR ''c''\<rparr>] = ''wet''"
    by code_simp
  have paired: "analyzeBoardTexture [\<lparr>rank = CHR ''K'', suit = CHR ''c''\<rparr>,
      \<lparr>rank = CHR ''K'', suit = CHR ''d''\<rparr>, \<lparr>rank = CHR ''4'', suit = CHR ''s''\<rparr>] = ''paired''"
    by code_simp
  have monotone: "analyzeBoardTexture [\<lparr>rank = CHR ''9'', suit = CHR ''h''\<rparr>,
      \<lparr>rank = CHR ''6'', suit = CHR ''h''\<rparr>, \<lparr>rank = CHR ''3'', suit = CHR ''h''\<rparr>] = ''monotone''"
    by code_simp
  from general dry wet paired monotone show ?thesis by (intro conjI)
qed

theorem analyzeBoardTexture_classifier_witness:
  "rank \<lparr>rank = CHR ''Q'', suit = CHR ''s''\<rparr> \<in> set RANKS \<and>
   rank \<lparr>rank = CHR ''T'', suit = CHR ''d''\<rparr> \<in> set RANKS \<and>
   rank \<lparr>rank = CHR ''8'', suit = CHR ''c''\<rparr> \<in> set RANKS \<and>
   analyzeBoardTexture [\<lparr>rank = CHR ''Q'', suit = CHR ''s''\<rparr>,
      \<lparr>rank = CHR ''T'', suit = CHR ''d''\<rparr>, \<lparr>rank = CHR ''8'', suit = CHR ''c''\<rparr>] = ''wet''"
proof -
  have r: "rank \<lparr>rank = CHR ''Q'', suit = CHR ''s''\<rparr> \<in> set RANKS"
    "rank \<lparr>rank = CHR ''T'', suit = CHR ''d''\<rparr> \<in> set RANKS"
    "rank \<lparr>rank = CHR ''8'', suit = CHR ''c''\<rparr> \<in> set RANKS"
    by (simp_all add: RANKS_def)
  have "texture_spec \<lparr>rank = CHR ''Q'', suit = CHR ''s''\<rparr>
      \<lparr>rank = CHR ''T'', suit = CHR ''d''\<rparr> \<lparr>rank = CHR ''8'', suit = CHR ''c''\<rparr> = ''wet''"
    by (simp add: texture_spec_def gaps_at_most_2_def rank_number_def RANKS_def)
  with conjunct1 [OF analyzeBoardTexture_classifier [OF r]] r show ?thesis by simp
qed

section \<open>Properties of the range statistics\<close>





section \<open>Properties of the progress store\<close>

lemma modules_rel_refl:
  assumes "\<And>r. R r r"
  shows "modules_rel R m m"
  using assms by (simp add: modules_rel_def)

lemma modules_rel_trans:
  assumes "\<And>a b c. R a b \<Longrightarrow> R b c \<Longrightarrow> R a c"
    and "modules_rel R m1 m2" and "modules_rel R m2 m3"
  shows "modules_rel R m1 m3"
  unfolding modules_rel_def
proof (intro allI impI)
  fix i r assume "m1 i = Some r"
  with assms(2) obtain r2 where r2: "m2 i = Some r2" "R r r2"
    unfolding modules_rel_def by blast
  with assms(3) obtain r3 where r3: "m3 i = Some r3" "R r2 r3"
    unfolding modules_rel_def by blast
  from assms(1) r2(2) r3(2) have "R r r3" by blast
  with r3(1) show "\<exists>r'. m3 i = Some r' \<and> R r r'" by blast
qed

lemma unit_le_refl: "unit_le r r"
  by (simp add: unit_le_def)

lemma unit_le_trans: "unit_le a b \<Longrightarrow> unit_le b c \<Longrightarrow> unit_le a c"
  by (auto simp: unit_le_def)

lemma unit_le_unlocked: "unit_le r (r\<lparr> unlocked := True \<rparr>)"
  by (simp add: unit_le_def)

lemma drill_le_refl: "drill_le r r"
  by (simp add: drill_le_def unit_le_def)

lemma drill_le_trans: "drill_le a b \<Longrightarrow> drill_le b c \<Longrightarrow> drill_le a c"
  unfolding drill_le_def unit_le_def by (elim conjE) (intro conjI; fastforce)

lemma drill_le_unlocked: "drill_le r (r\<lparr> unlocked := True \<rparr>)"
  by (simp add: drill_le_def unit_le_def)

lemma drill_modules_trans:
  assumes "modules_rel drill_le m1 m2" and "modules_rel drill_le m2 m3"
  shows "modules_rel drill_le m1 m3"
  using assms(1) assms(2) by (rule modules_rel_trans [rotated]) (rule drill_le_trans)

lemma unit_modules_trans:
  assumes "modules_rel unit_le m1 m2" and "modules_rel unit_le m2 m3"
  shows "modules_rel unit_le m1 m3"
  using assms(1) assms(2) by (rule modules_rel_trans [rotated]) (rule unit_le_trans)

lemma modules_rel_update:
  assumes "\<And>r. R r r" and "m i = Some r" and "R r r'"
  shows "modules_rel R m (m(i \<mapsto> r'))"
  using assms by (auto simp: modules_rel_def)

lemma modules_rel_unlock:
  assumes "\<And>r. R r r" and "\<And>r. R r (r\<lparr> unlocked := True \<rparr>)"
  shows "modules_rel R m (unlock i m)"
  using assms by (auto simp: modules_rel_def unlock_def split: option.splits)

lemma property_Own:
  assumes "obj key = Some v"
  shows "property obj key = Own v"
  using assms by (simp add: property_def)

lemma property_no_own:
  assumes "obj key = None"
  shows "property obj key = Inherited \<or> property obj key = Undefined"
  using assms by (simp add: property_def)

lemma updateScenarioProgress_modules:
  assumes "scenarios_modules p sid = Some r"
  shows "scenarios_modules (snd (updateScenarioProgress sid stats now Saved p))
           = scenario_step sid (accuracy stats) now r (scenarios_modules p)"
  using assms
  by (auto simp: updateScenarioProgress_def saveProgress_def checkScenarioAchievements_def
      scenario_step_def Let_def max_def property_Own)

lemma updateScenarioProgress_no_record:
  assumes "scenarios_modules p sid = None"
  shows "scenarios_modules (snd (updateScenarioProgress sid stats now Saved p))
           = scenarios_modules p"
  using property_no_own [of "scenarios_modules p" sid] assms
  by (auto simp: updateScenarioProgress_def saveProgress_def)

lemma updateScenarioProgress_drills:
  "drills_modules (snd (updateScenarioProgress sid stats now Saved p)) = drills_modules p"
  by (simp add: updateScenarioProgress_def saveProgress_def checkScenarioAchievements_def
      Let_def split: property.splits)


lemma updateDrillProgress_modules:
  assumes "drills_modules p i = Some r"
  shows "drills_modules (snd (updateDrillProgress i stats now Saved p))
           = drill_step i stats now r (drills_modules p)"
  using assms
  by (simp add: updateDrillProgress_def saveProgress_def checkDrillAchievements_def
      drill_step_def drill_after_def Let_def property_Own split: option.splits)

lemma updateDrillProgress_no_record:
  assumes "drills_modules p i = None"
  shows "drills_modules (snd (updateDrillProgress i stats now Saved p)) = drills_modules p"
  using property_no_own [of "drills_modules p" i] assms
  by (auto simp: updateDrillProgress_def saveProgress_def)

lemma updateDrillProgress_scenarios:
  "scenarios_modules (snd (updateDrillProgress i stats now Saved p)) = scenarios_modules p"
  by (simp add: updateDrillProgress_def saveProgress_def checkDrillAchievements_def
      Let_def split: property.splits option.splits)

lemma drill_after_le: "drill_le r (drill_after stats now r)"
  by (auto simp: drill_after_def drill_le_def unit_le_def Let_def split: option.splits)

lemma drill_after_completed_le: "drill_le r ((drill_after stats now r)\<lparr> completed := True \<rparr>)"
  using drill_after_le [of r stats now] by (auto simp: drill_le_def unit_le_def)

lemma drill_step_le:
  assumes "m i = Some r"
  shows "modules_rel drill_le m (drill_step i stats now r m)"
proof -
  have a: "modules_rel drill_le m (m(i \<mapsto> drill_after stats now r))"
    using assms drill_after_le by (intro modules_rel_update drill_le_refl)
  have b: "modules_rel drill_le m (m(i \<mapsto> (drill_after stats now r)\<lparr> completed := True \<rparr>))"
    using assms drill_after_completed_le by (intro modules_rel_update drill_le_refl)
  have c: "modules_rel drill_le m
      (unlock n (m(i \<mapsto> (drill_after stats now r)\<lparr> completed := True \<rparr>)))" for n
    using b modules_rel_unlock [of drill_le, OF drill_le_refl drill_le_unlocked]
    by (rule drill_modules_trans)
  show ?thesis
    unfolding drill_step_def Let_def using a b c by (simp split: option.splits)
qed


lemma scenario_step_le:
  assumes "m sid = Some r"
  shows "modules_rel unit_le m (scenario_step sid acc now r m)"
proof -
  let ?s2 = "r\<lparr> attempts := attempts r + 1, lastAttempt := Some now,
                  bestScore := max (bestScore r) acc \<rparr>"
  have le2: "unit_le r ?s2" and le3: "unit_le r (?s2\<lparr> completed := True \<rparr>)"
    by (auto simp: unit_le_def)
  have a: "modules_rel unit_le m (m(sid \<mapsto> ?s2))"
    using assms le2 by (intro modules_rel_update unit_le_refl)
  have b: "modules_rel unit_le m (m(sid \<mapsto> ?s2\<lparr> completed := True \<rparr>))"
    using assms le3 by (intro modules_rel_update unit_le_refl)
  have c: "modules_rel unit_le m (unlock n (m(sid \<mapsto> ?s2\<lparr> completed := True \<rparr>)))" for n
    using b modules_rel_unlock [of unit_le, OF unit_le_refl unit_le_unlocked]
    by (rule unit_modules_trans)
  show ?thesis
    unfolding scenario_step_def Let_def using a b c by simp
qed

lemma recordAttempt_le:
  assumes "saved a"
  shows "modules_rel drill_le (drills_modules p) (drills_modules (recordAttempt a p)) \<and>
         modules_rel unit_le (scenarios_modules p) (scenarios_modules (recordAttempt a p))"
proof (cases a)
  case (DrillAttempt i stats now sv)
  with assms have sv: "sv = Saved" by simp
  have s: "scenarios_modules (recordAttempt a p) = scenarios_modules p"
    unfolding DrillAttempt sv by (simp add: updateDrillProgress_scenarios)
  have d: "modules_rel drill_le (drills_modules p) (drills_modules (recordAttempt a p))"
  proof (cases "drills_modules p i")
    case None
    then show ?thesis unfolding DrillAttempt sv
      by (simp add: updateDrillProgress_no_record modules_rel_refl drill_le_refl)
  next
    case (Some r)
    then show ?thesis unfolding DrillAttempt sv
      by (simp add: updateDrillProgress_modules drill_step_le)
  qed
  from d s show ?thesis by (simp add: modules_rel_refl unit_le_refl)
next
  case (ScenarioAttempt sid stats now sv)
  with assms have sv: "sv = Saved" by simp
  have d: "drills_modules (recordAttempt a p) = drills_modules p"
    unfolding ScenarioAttempt sv by (simp add: updateScenarioProgress_drills)
  have s: "modules_rel unit_le (scenarios_modules p) (scenarios_modules (recordAttempt a p))"
  proof (cases "scenarios_modules p sid")
    case None
    then show ?thesis unfolding ScenarioAttempt sv
      by (simp add: updateScenarioProgress_no_record modules_rel_refl unit_le_refl)
  next
    case (Some r)
    then show ?thesis unfolding ScenarioAttempt sv
      by (simp add: updateScenarioProgress_modules scenario_step_le)
  qed
  from d s show ?thesis by (simp add: modules_rel_refl drill_le_refl)
qed

lemma after_attempts_le:
  assumes "list_all saved calls"
  shows "modules_rel drill_le (drills_modules p) (drills_modules (after_attempts calls p)) \<and>
         modules_rel unit_le (scenarios_modules p) (scenarios_modules (after_attempts calls p))"
  using assms
proof (induction calls arbitrary: p)
  case Nil
  show ?case by (simp add: after_attempts_def modules_rel_refl drill_le_refl unit_le_refl)
next
  case (Cons a calls)
  have step: "after_attempts (a # calls) p = after_attempts calls (recordAttempt a p)"
    by (simp add: after_attempts_def)
  from Cons.prems have a: "saved a" and rest: "list_all saved calls" by simp_all
  from recordAttempt_le [OF a, of p] Cons.IH [OF rest, of "recordAttempt a p"]
  show ?case unfolding step
    by (blast intro: drill_modules_trans unit_modules_trans)
qed

text \<open>
  Claim C2. For every document and every sequence of \<open>updateDrillProgress\<close> and
  \<open>updateScenarioProgress\<close> calls with arbitrary statistics and ids, each of them saved,
  every drill record and every scenario record is still there afterwards, its
  \<open>bestScore\<close> (and for a drill its \<open>bestStreak\<close>) is not smaller, its
  \<open>bestTime\<close>, once set, is set and not larger, and \<open>completed\<close> is still true if it
  was.
\<close>

theorem progress_monotonic:
  assumes "list_all saved calls"
  shows "(\<forall>d r. drills_modules p d = Some r \<longrightarrow>
      (\<exists>r'. drills_modules (after_attempts calls p) d = Some r' \<and>
         bestScore r \<le> bestScore r' \<and> bestStreak r \<le> bestStreak r' \<and>
         (\<forall>t. bestTime r = Some t \<longrightarrow> (\<exists>t'. bestTime r' = Some t' \<and> t' \<le> t)) \<and>
         (completed r \<longrightarrow> completed r'))) \<and>
   (\<forall>s u. scenarios_modules p s = Some u \<longrightarrow>
      (\<exists>u'. scenarios_modules (after_attempts calls p) s = Some u' \<and>
         bestScore u \<le> bestScore u' \<and> (completed u \<longrightarrow> completed u')))"
  using after_attempts_le [OF assms, of p]
  unfolding modules_rel_def drill_le_def unit_le_def by blast

theorem progress_monotonic_witness:
  "list_all saved
     [DrillAttempt ''hand-ranking'' \<lparr> accuracy = 40, avgTime = 2500, stats_bestStreak = 2 \<rparr>
        ''t2'' Saved,
      DrillAttempt ''constructor'' \<lparr> accuracy = 100, avgTime = 900, stats_bestStreak = 30 \<rparr>
        ''t3'' Saved,
      ScenarioAttempt ''bb-defense'' \<lparr> accuracy = 55, avgTime = 3000 \<rparr> ''t4'' Saved] \<and>
   drills_modules (after_attempts
       [DrillAttempt ''hand-ranking'' \<lparr> accuracy = 90, avgTime = 1500, stats_bestStreak = 7 \<rparr>
          ''t1'' Saved] DEFAULT_PROGRESS) ''hand-ranking''
     = Some \<lparr> unlocked = True, completed = True, bestScore = 90, attempts = 1,
              lastAttempt = Some ''t1'', bestStreak = 7, bestTime = Some 1500 \<rparr> \<and>
   (\<exists>r'. drills_modules (after_attempts
       [DrillAttempt ''hand-ranking'' \<lparr> accuracy = 40, avgTime = 2500, stats_bestStreak = 2 \<rparr>
          ''t2'' Saved,
        DrillAttempt ''constructor'' \<lparr> accuracy = 100, avgTime = 900, stats_bestStreak = 30 \<rparr>
          ''t3'' Saved,
        ScenarioAttempt ''bb-defense'' \<lparr> accuracy = 55, avgTime = 3000 \<rparr> ''t4'' Saved]
       (after_attempts
         [DrillAttempt ''hand-ranking'' \<lparr> accuracy = 90, avgTime = 1500, stats_bestStreak = 7 \<rparr>
            ''t1'' Saved] DEFAULT_PROGRESS)) ''hand-ranking'' = Some r' \<and>
      90 \<le> bestScore r' \<and> 7 \<le> bestStreak r' \<and>
      (\<exists>t'. bestTime r' = Some t' \<and> t' \<le> 1500) \<and> completed r') \<and>
   scenarios_modules (after_attempts
       [DrillAttempt ''hand-ranking'' \<lparr> accuracy = 90, avgTime = 1500, stats_bestStreak = 7 \<rparr>
          ''t1'' Saved] DEFAULT_PROGRESS) ''bb-defense''
     = Some \<lparr> unlocked = True, completed = False, bestScore = 0, attempts = 0,
              lastAttempt = None \<rparr> \<and>
   (\<exists>u'. scenarios_modules (after_attempts
       [DrillAttempt ''hand-ranking'' \<lparr> accuracy = 40, avgTime = 2500, stats_bestStreak = 2 \<rparr>
          ''t2'' Saved,
        DrillAttempt ''constructor'' \<lparr> accuracy = 100, avgTime = 900, stats_bestStreak = 30 \<rparr>
          ''t3'' Saved,
        ScenarioAttempt ''bb-defense'' \<lparr> accuracy = 55, avgTime = 3000 \<rparr> ''t4'' Saved]
       (after_attempts
         [DrillAttempt ''hand-ranking'' \<lparr> accuracy = 90, avgTime = 1500, stats_bestStreak = 7 \<rparr>
            ''t1'' Saved] DEFAULT_PROGRESS)) ''bb-defense'' = Some u' \<and> 0 \<le> bestScore u')"
proof -
  let ?P1 = "after_attempts
       [DrillAttempt ''hand-ranking'' \<lparr> accuracy = 90, avgTime = 1500, stats_bestStreak = 7 \<rparr>
          ''t1'' Saved] DEFAULT_PROGRESS"
  let ?R1 = "\<lparr> unlocked = True, completed = True, bestScore = 90, attempts = 1,
              lastAttempt = Some ''t1'', bestStreak = 7, bestTime = Some (1500::rat) \<rparr>"
  let ?calls = "[DrillAttempt ''hand-ranking''
        \<lparr> accuracy = 40, avgTime = 2500, stats_bestStreak = 2 \<rparr> ''t2'' Saved,
      DrillAttempt ''constructor'' \<lparr> accuracy = 100, avgTime = 900, stats_bestStreak = 30 \<rparr>
        ''t3'' Saved,
      ScenarioAttempt ''bb-defense'' \<lparr> accuracy = 55, avgTime = 3000 \<rparr> ''t4'' Saved]"
  have sv: "list_all saved ?calls"
    by simp
  have d: "drills_modules ?P1 ''hand-ranking'' = Some ?R1"
    by code_simp
  from conjunct1 [OF progress_monotonic [OF sv, of ?P1]] d
  have "\<exists>r'. drills_modules (after_attempts ?calls ?P1) ''hand-ranking'' = Some r' \<and>
      90 \<le> bestScore r' \<and> 7 \<le> bestStreak r' \<and>
      (\<exists>t'. bestTime r' = Some t' \<and> t' \<le> 1500) \<and> completed r'"
    by (fastforce simp del: recordAttempt.simps)
  note drill = this
  have s: "scenarios_modules ?P1 ''bb-defense''
     = Some \<lparr> unlocked = True, completed = False, bestScore = 0, attempts = 0,
              lastAttempt = None \<rparr>"
    by code_simp
  from conjunct2 [OF progress_monotonic [OF sv, of ?P1]] s
  have "\<exists>u'. scenarios_modules (after_attempts ?calls ?P1) ''bb-defense'' = Some u' \<and>
      0 \<le> bestScore u'"
    by (fastforce simp del: recordAttempt.simps)
  with sv d drill s show ?thesis by (intro conjI)
qed










section \<open>Properties of the scenario engine\<close>

lemma submitAnswer_rejected:
  assumes "\<not> active (engine w) \<or> currentQuestionData (engine w) = None"
  shows "submitAnswer cfg e a w = (None, w)"
  using assms by (auto simp: submitAnswer_def split: bool.splits option.splits)

lemma submitAnswer_accepted:
  assumes "active (engine w)" and "currentQuestionData (engine w) = Some q"
  shows "(\<exists>r. fst (submitAnswer cfg e a w) = Some r) \<and>
         active (engine (snd (submitAnswer cfg e a w))) \<and>
         currentQuestionData (engine (snd (submitAnswer cfg e a w))) = Some q \<and>
         currentQuestion (engine (snd (submitAnswer cfg e a w))) = currentQuestion (engine w) \<and>
         length (answers (engine (snd (submitAnswer cfg e a w))))
           = length (answers (engine w)) + 1 \<and>
         length (questionTimes (engine (snd (submitAnswer cfg e a w))))
           = length (questionTimes (engine w)) + 1 \<and>
         correct (engine (snd (submitAnswer cfg e a w)))
           = correct (engine w) + (if validation_correct (validateAnswer cfg a q) then 1 else 0) \<and>
         store (snd (submitAnswer cfg e a w)) = store w"
  using assms by (simp add: submitAnswer_def Let_def)

text \<open>
  Claim C1, as amended. \<open>submitAnswer\<close> is rejected (returns \<open>null\<close> and leaves the
  state unchanged) whenever the engine is not active or has no current question. The engine
  keeps no mark that the current question has been answered: an accepted call appends one
  answer record and one question time, counts the answer if it is correct, and leaves the
  engine active with the same current question and question number, so that a further call
  before \<open>nextQuestion()\<close> is accepted in the same way. The progress store is not
  touched.
\<close>

theorem submitAnswer_guard:
  "(\<not> active (engine w) \<or> currentQuestionData (engine w) = None
      \<longrightarrow> submitAnswer cfg e a w = (None, w)) \<and>
   (active (engine w) \<and> currentQuestionData (engine w) = Some q
      \<longrightarrow> (\<exists>r. fst (submitAnswer cfg e a w) = Some r) \<and>
         active (engine (snd (submitAnswer cfg e a w))) \<and>
         currentQuestionData (engine (snd (submitAnswer cfg e a w))) = Some q \<and>
         currentQuestion (engine (snd (submitAnswer cfg e a w))) = currentQuestion (engine w) \<and>
         length (answers (engine (snd (submitAnswer cfg e a w))))
           = length (answers (engine w)) + 1 \<and>
         length (questionTimes (engine (snd (submitAnswer cfg e a w))))
           = length (questionTimes (engine w)) + 1 \<and>
         correct (engine (snd (submitAnswer cfg e a w)))
           = correct (engine w) + (if validation_correct (validateAnswer cfg a q) then 1 else 0) \<and>
         store (snd (submitAnswer cfg e a w)) = store w)"
  using submitAnswer_rejected [of w cfg e a] submitAnswer_accepted [of w q cfg e a]
  by blast

lemma example_started_state:
  "active (engine example_started)"
  "currentQuestionData (engine example_started) = Some \<lparr> category = ''BTN'', payload = () \<rparr>"
  "currentQuestion (engine example_started) = 1"
  "answers (engine example_started) = []"
  by (simp_all add: example_started_def start_def nextQuestion_def reset_def example_config_def
      example_env_def Let_def)

theorem submitAnswer_guard_witness:
  "active (engine example_started) \<and>
   currentQuestionData (engine example_started) = Some \<lparr> category = ''BTN'', payload = () \<rparr> \<and>
   length (answers (engine example_answered)) = 1 \<and>
   active (engine example_answered) \<and>
   currentQuestionData (engine example_answered) = Some \<lparr> category = ''BTN'', payload = () \<rparr> \<and>
   \<not> active (engine (stop example_started)) \<and>
   submitAnswer example_config (example_env 2500) ''Fold'' (stop example_started)
     = (None, stop example_started)"
proof -
  note s = example_started_state
  from submitAnswer_guard [of example_started example_config "example_env 2500" "''Fold''"
      "\<lparr> category = ''BTN'', payload = () \<rparr>"] s(1,2,4)
  have a: "length (answers (engine example_answered)) = 1 \<and>
      active (engine example_answered) \<and>
      currentQuestionData (engine example_answered) = Some \<lparr> category = ''BTN'', payload = () \<rparr>"
    unfolding example_answered_def by simp
  have n: "\<not> active (engine (stop example_started))"
    by (simp add: stop_def)
  from submitAnswer_guard [of "stop example_started" example_config "example_env 2500" "''Fold''"] n
  have b: "submitAnswer example_config (example_env 2500) ''Fold'' (stop example_started)
     = (None, stop example_started)"
    by blast
  from s(1,2) a n b show ?thesis by (elim conjE) (intro conjI; assumption)
qed

text \<open>
  Claim C1 as stated fails: in the example session the first question is answered at time
  2500 and, with no \<open>nextQuestion()\<close> in between, a second \<open>submitAnswer\<close> at time
  3500 is accepted as well; it adds a second answer record, a second question time and a
  second count in the category statistics for question 1.
\<close>

theorem submitAnswer_accepted_twice:
  "active (engine example_started) \<and>
   currentQuestion (engine example_started) = 1 \<and>
   answers (engine example_started) = [] \<and>
   fst (submitAnswer example_config (example_env 2500) ''Fold'' example_started) \<noteq> None \<and>
   currentQuestion (engine example_answered) = 1 \<and>
   correct (engine example_answered) = 1 \<and>
   questionTimes (engine example_answered) = [1500] \<and>
   map answer_core.playerAnswer (answers (engine example_answered)) = [''Fold''] \<and>
   fst (submitAnswer example_config (example_env 3500) ''Call'' example_answered) \<noteq> None \<and>
   currentQuestion (engine example_answered_twice) = 1 \<and>
   questionTimes (engine example_answered_twice) = [1500, 2500] \<and>
   map answer_core.playerAnswer (answers (engine example_answered_twice)) = [''Fold'', ''Call''] \<and>
   map_option cat_total (categoryStats (engine example_answered) ''BTN'') = Some 1 \<and>
   map_option cat_total (categoryStats (engine example_answered_twice) ''BTN'') = Some 2"
  by (simp add: example_answered_twice_def example_answered_def example_started_def start_def
      nextQuestion_def submitAnswer_def reset_def example_config_def example_env_def Let_def
      getStats_def)

text \<open>
  Claim C10. \<open>stop()\<close> changes only the \<open>active\<close> flag: the question number, the
  current question, the correct count, the answers, the question times and the category
  statistics are unchanged, and so is the progress store, the \<open>attempts\<close> counter of
  the scenario included. After \<open>stop()\<close>, \<open>nextQuestion()\<close> and \<open>submitAnswer\<close> do
  nothing. \<open>submitAnswer\<close> never writes to the store, and \<open>nextQuestion()\<close> does so
  only by ending the scenario.
\<close>

theorem stop_frame:
  "engine (stop w) = (engine w)\<lparr> active := False \<rparr> \<and>
   currentQuestion (engine (stop w)) = currentQuestion (engine w) \<and>
   currentQuestionData (engine (stop w)) = currentQuestionData (engine w) \<and>
   correct (engine (stop w)) = correct (engine w) \<and>
   answers (engine (stop w)) = answers (engine w) \<and>
   questionTimes (engine (stop w)) = questionTimes (engine w) \<and>
   categoryStats (engine (stop w)) = categoryStats (engine w) \<and>
   store (stop w) = store w \<and>
   map_option attempts (scenarios_modules (store (stop w)) (config_id cfg))
     = map_option attempts (scenarios_modules (store w) (config_id cfg)) \<and>
   nextQuestion cfg e (stop w) = stop w \<and>
   submitAnswer cfg e a (stop w) = (None, stop w) \<and>
   store (snd (submitAnswer cfg e a w)) = store w \<and>
   (nextQuestion cfg e w = endScenario cfg e w \<or> store (nextQuestion cfg e w) = store w)"
proof -
  have "store (snd (submitAnswer cfg e a w)) = store w"
    by (simp add: submitAnswer_def Let_def split: bool.splits option.splits)
  moreover have "submitAnswer cfg e a (stop w) = (None, stop w)"
    by (rule submitAnswer_rejected) (simp add: stop_def)
  moreover have "nextQuestion cfg e w = endScenario cfg e w \<or> store (nextQuestion cfg e w) = store w"
    by (simp add: nextQuestion_def Let_def)
  ultimately show ?thesis
    by (simp add: stop_def nextQuestion_def)
qed

theorem stop_frame_witness:
  "store (stop example_answered) = store example_answered \<and>
   answers (engine (stop example_answered)) = answers (engine example_answered) \<and>
   nextQuestion example_config (example_env 4000) (stop example_answered)
     = stop example_answered \<and>
   submitAnswer example_config (example_env 4000) ''Fold'' (stop example_answered)
     = (None, stop example_answered)"
  using stop_frame [of example_answered example_config "example_env 4000" "''Fold''"]
  by (elim conjE) (intro conjI; assumption)

end
